theory Spec2Isabelle
  imports Main
begin

section \<open>The cascade orchestrator \<^verbatim>\<open>longa.py\<close> and the agents it generates\<close>

text \<open>
  The program is a Python script that cleans up artifacts of earlier runs, captures its own
  source as ASCII text, writes a successor script \<^verbatim>\<open>longa1.py\<close> that embeds that text,
  loads the successor inside its own process, and then branches: after a successful load it
  writes \<^verbatim>\<open>longa2.py\<close> and deletes itself; otherwise it writes and runs \<^verbatim>\<open>longamax.py\<close>
  and \<^verbatim>\<open>loadedmax.py\<close> as child processes and then deletes itself.

  The embedding follows \<^verbatim>\<open>src/longa.py\<close> statement by statement. The file system is a
  map from names to contents, the console and every other effect are appended to a trace,
  every Python exception is a value, and everything the script cannot decide by itself
  (whether a deletion or a write is refused, whether the \<^verbatim>\<open>python\<close> executable is found,
  whether the watcher \<^verbatim>\<open>delete1.py\<close> removes the successor, what the user types into the
  selector) is a field of an explicit environment.
\<close>

subsection \<open>Exceptions\<close>

datatype error =
    FileNotFoundError
  | OSError
  | SyntaxError
  | UnicodeDecodeError
  | CalledProcessError
  | EOFError

text \<open>\<^verbatim>\<open>FileNotFoundError\<close> is a subclass of \<^verbatim>\<open>OSError\<close> (of which \<^verbatim>\<open>IOError\<close> is an alias).\<close>

definition is_OSError :: "error \<Rightarrow> bool" where
  "is_OSError e = (e = OSError \<or> e = FileNotFoundError)"

definition is_Exception :: "error \<Rightarrow> bool" where
  "is_Exception e = True"

subsection \<open>Code capture: \<^verbatim>\<open>get_clean_ascii_code\<close>\<close>

text \<open>
  A byte string is a list of 8-bit characters; a Python \<^verbatim>\<open>str\<close> is a list of code points.
  Decoding as Latin-1 maps every byte to the code point of the same number and cannot fail.
\<close>

type_synonym bytes = string
type_synonym str = "nat list"

definition decode_latin1 :: "bytes \<Rightarrow> str" where
  "decode_latin1 raw_bytes = map of_char raw_bytes"

text \<open>\<^verbatim>\<open>s.replace(old, new)\<close> for a one-character \<^verbatim>\<open>old\<close>.\<close>

definition replace_char :: "nat \<Rightarrow> string \<Rightarrow> str \<Rightarrow> str" where
  "replace_char old new s = concat (map (\<lambda>c. if c = old then map of_char new else [c]) s)"

fun decimal :: "nat \<Rightarrow> string" where
  "decimal n = (if n < 10 then [char_of (48 + n)] else decimal (n div 10) @ [char_of (48 + n mod 10)])"

declare decimal.simps [simp del]

text \<open>
  \<^verbatim>\<open>s.encode('ascii', errors='xmlcharrefreplace')\<close>: a code point below 128 is kept, any
  other becomes its decimal numeric character reference.
\<close>

definition xmlcharref :: "nat \<Rightarrow> string" where
  "xmlcharref c = ''&#'' @ decimal c @ '';''"

definition encode_ascii_xmlcharrefreplace :: "str \<Rightarrow> bytes" where
  "encode_ascii_xmlcharrefreplace s =
     concat (map (\<lambda>c. if c < 128 then [char_of c] else xmlcharref c) s)"

definition is_ascii :: "string \<Rightarrow> bool" where
  "is_ascii bs = list_all (\<lambda>b. (of_char b :: nat) < 128) bs"

text \<open>\<^verbatim>\<open>bs.decode('ascii')\<close> raises on any byte from 128 on.\<close>

definition decode_ascii :: "bytes \<Rightarrow> error + string" where
  "decode_ascii bs = (if is_ascii bs then Inr bs else Inl UnicodeDecodeError)"

text \<open>
  Lines 21 to 24 of \<^verbatim>\<open>get_clean_ascii_code\<close>, on the bytes read. The two replaced
  characters are the em dash U+2014 and the en dash U+2013.
\<close>

definition capture :: "bytes \<Rightarrow> error + string" where
  "capture raw_bytes =
     (let decoded_string = decode_latin1 raw_bytes;
          decoded_string = replace_char 8211 ''-'' (replace_char 8212 ''--'' decoded_string)
      in decode_ascii (encode_ascii_xmlcharrefreplace decoded_string))"


subsection \<open>Embedding a string in generated source: \<^verbatim>\<open>repr\<close> and the literal read back\<close>

text \<open>
  The f-string conversion \<^verbatim>\<open>{code!r}\<close> inserts \<^verbatim>\<open>repr(code)\<close>. For a string of characters
  up to U+00FF, CPython chooses double quotes when the string has a single quote and no
  double quote, single quotes otherwise; it escapes the quote and the backslash, writes tab,
  line feed and carriage return as \<^verbatim>\<open>\t\<close>, \<^verbatim>\<open>\n\<close>, \<^verbatim>\<open>\r\<close>, any other non-printable character as
  \<^verbatim>\<open>\xHH\<close>, and copies printable characters.
\<close>

definition hexdigit :: "nat \<Rightarrow> char" where
  "hexdigit n = ''0123456789abcdef'' ! (n mod 16)"

definition isprintable :: "char \<Rightarrow> bool" where
  "isprintable ch =
     (let n = (of_char ch :: nat) in (32 \<le> n \<and> n < 127) \<or> (160 < n \<and> n \<noteq> 173))"

definition repr_char :: "char \<Rightarrow> char \<Rightarrow> string" where
  "repr_char quote ch =
     (if ch = quote \<or> ch = CHR 0x5C then [CHR 0x5C, ch]
      else if ch = CHR 0x09 then [CHR 0x5C, CHR ''t'']
      else if ch = CHR 0x0A then [CHR 0x5C, CHR ''n'']
      else if ch = CHR 0x0D then [CHR 0x5C, CHR ''r'']
      else if isprintable ch then [ch]
      else [CHR 0x5C, CHR ''x'', hexdigit (of_char ch div 16), hexdigit (of_char ch mod 16)])"

definition repr_quote :: "string \<Rightarrow> char" where
  "repr_quote s = (if CHR 0x27 \<in> set s \<and> CHR 0x22 \<notin> set s then CHR 0x22 else CHR 0x27)"

definition py_repr :: "string \<Rightarrow> string" where
  "py_repr s = (let quote = repr_quote s in quote # concat (map (repr_char quote) s) @ [quote])"

text \<open>
  Reading a string literal at the start of a text, as the Python compiler does when the
  generated file is executed: the result is the value of the literal and the text after its
  closing quote. The model covers single-line literals with the one-letter escapes and
  \<^verbatim>\<open>\xHH\<close>. \<^verbatim>\<open>None\<close> stands for a literal that Python rejects (it is not terminated, or a
  line ends inside it) and also for the forms left out here (triple quotes, a backslash at
  the end of a line, octal, \<^verbatim>\<open>\u\<close>, \<^verbatim>\<open>\U\<close>, \<^verbatim>\<open>\N\<close> and unknown escapes, prefixes), so only the
  answer \<^verbatim>\<open>Some\<close> says what Python does.
\<close>

definition hexval :: "char \<Rightarrow> nat option" where
  "hexval c =
     (let n = (of_char c :: nat) in
      if 48 \<le> n \<and> n \<le> 57 then Some (n - 48)
      else if 97 \<le> n \<and> n \<le> 102 then Some (n - 87)
      else if 65 \<le> n \<and> n \<le> 70 then Some (n - 55)
      else None)"

definition simple_escape :: "char \<Rightarrow> char option" where
  "simple_escape e =
     (if e = CHR 0x5C then Some (CHR 0x5C)
      else if e = CHR 0x27 then Some (CHR 0x27)
      else if e = CHR 0x22 then Some (CHR 0x22)
      else if e = CHR ''n'' then Some (CHR 0x0A)
      else if e = CHR ''r'' then Some (CHR 0x0D)
      else if e = CHR ''t'' then Some (CHR 0x09)
      else if e = CHR ''a'' then Some (CHR 0x07)
      else if e = CHR ''b'' then Some (CHR 0x08)
      else if e = CHR ''f'' then Some (CHR 0x0C)
      else if e = CHR ''v'' then Some (CHR 0x0B)
      else None)"

definition cons_value :: "char \<Rightarrow> (string \<times> string) option \<Rightarrow> (string \<times> string) option" where
  "cons_value ch r = (case r of None \<Rightarrow> None | Some (v, rest) \<Rightarrow> Some (ch # v, rest))"

fun literal_body :: "char \<Rightarrow> string \<Rightarrow> (string \<times> string) option" where
  "literal_body quote [] = None"
| "literal_body quote (c # cs) =
     (if c = quote then Some ([], cs)
      else if c = CHR 0x0A then None
      else if c = CHR 0x5C then
        (case cs of
           [] \<Rightarrow> None
         | e # es \<Rightarrow>
             if e = CHR ''x'' then
               (case es of
                  h1 # h2 # rest \<Rightarrow>
                    (case (hexval h1, hexval h2) of
                       (Some a, Some b) \<Rightarrow>
                         cons_value (char_of (16 * a + b)) (literal_body quote rest)
                     | _ \<Rightarrow> None)
                | _ \<Rightarrow> None)
             else
               (case simple_escape e of
                  Some ch \<Rightarrow> cons_value ch (literal_body quote es)
                | None \<Rightarrow> None))
      else cons_value c (literal_body quote cs))"

definition py_literal :: "string \<Rightarrow> (string \<times> string) option" where
  "py_literal text =
     (case text of
        [] \<Rightarrow> None
      | q # cs \<Rightarrow>
          if q = CHR 0x27 \<or> q = CHR 0x22
          then (if take 2 cs = [q, q] then None else literal_body q cs)
          else None)"

subsection \<open>The texts of the generated agents\<close>

definition unlines :: "string list \<Rightarrow> string" where
  "unlines ls = concat (map (\<lambda>l. l @ [CHR 0x0A]) ls)"

text \<open>
  \<^verbatim>\<open>longa1_code\<close> (lines 64 to 82): the text before the embedded literal, the literal, the
  text after it. The doubled braces of the f-string are single braces in the result.
\<close>

definition longa1_head :: string where
  \<open>longa1_head = unlines [
     ''# longa1.py'',
     ''# -*- coding: utf-8 -*-'',
     ''# This script is designed to overwrite the original longa.py with its own content.'',
     ''# The 'code' variable holds the exact content of longa.py at the time longa1.py was created.''] @ ''code = ''\<close>

definition longa1_tail :: string where
  \<open>longa1_tail = CHR 0x0A # unlines [
     '''',
     ''with open("longa.py", "w", encoding="utf-8") as f: # Explicitly write as UTF-8'',
     ''    f.write(code) # Write the pre-prepared code directly'',
     '''',
     ''import os'',
     ''# Self-destruct longa1.py after it has completed its task'',
     ''current_script_path = os.path.abspath(__file__) # Get path for the currently running longa1.py'',
     ''try:'',
     ''    os.remove(current_script_path)'',
     ''    print(f"longa1.py self-destruction complete: {os.path.basename(current_script_path)} removed.")'',
     ''except OSError as e:'',
     ''    print(f"Error during self-destruction of longa1.py ({os.path.basename(current_script_path)}): {e}")'',
     '''']\<close>

definition longa1_code :: "string \<Rightarrow> string" where
  "longa1_code current_longa_code_for_longa1 =
     longa1_head @ py_repr current_longa_code_for_longa1 @ longa1_tail"

text \<open>\<^verbatim>\<open>longamax_code_content\<close> (lines 138 to 178).\<close>

definition longamax_head :: string where
  \<open>longamax_head = unlines [
     ''# longamax.py'',
     ''# -*- coding: utf-8 -*-'',
     ''import time'',
     ''import os'',
     ''import subprocess'',
     '''',
     ''print("longamax.py started. Countdown to self-destruct...")'',
     ''for i in range(3, 0, -1): # Reduced countdown for quicker testing'',
     ''    print(f"Deleting in {i} seconds...")'',
     ''    time.sleep(1)'',
     '''',
     ''# Recreate original longa.py first'',
     ''# The code for the original longa.py is embedded here directly as a string literal'',
     ''# It's already ASCII-cleaned by get_clean_ascii_code''] @ ''original_longa_code_to_write = ''\<close>

definition longamax_tail :: string where
  \<open>longamax_tail = CHR 0x0A # unlines [
     '''',
     ''with open("longa.py", "w", encoding="utf-8") as f: # Explicitly write as UTF-8'',
     ''    f.write(original_longa_code_to_write)'',
     ''print("longa.py recreated.")'',
     '''',
     ''# Delete self (longamax.py)'',
     ''current_script_path = os.path.abspath(__file__)'',
     ''try:'',
     ''    os.remove(current_script_path)'',
     ''    print(f"longamax.py self-destruction complete: {os.path.basename(current_script_path)} removed.")'',
     ''except OSError as e:'',
     ''    print(f"Error during self-destruction of longamax.py ({os.path.basename(current_script_path)}): {e}")'',
     '''',
     ''# Run longa.py immediately after longamax.py self-destructs'',
     ''print("Attempting to run longa.py after longamax.py self-destructs...")'',
     ''try:'',
     ''    # subprocess.Popen detaches the process, allowing the parent (this longamax.py instance) to exit cleanly.'',
     ''    # This is the very last action taken by longamax.py'',
     ''    subprocess.Popen(["python", "longa.py"],'',
     ''                     stdout=subprocess.PIPE, stderr=subprocess.PIPE,'',
     ''                     text=True, # text=True means stdout/stderr are text, not bytes'',
     ''                     creationflags=subprocess.DETACHED_PROCESS if os.name == 'nt' else 0)'',
     ''    print("longa.py launched successfully from longamax.py.")'',
     ''except Exception as e:'',
     ''    print(f"Error launching longa.py: {e}")'']\<close>

definition longamax_code_content :: "string \<Rightarrow> string" where
  "longamax_code_content current_longa_code_for_longamax =
     longamax_head @ py_repr current_longa_code_for_longamax @ longamax_tail"

text \<open>\<^verbatim>\<open>loadedmax_code_content\<close> (lines 202 to 236), a constant text.\<close>

definition loadedmax_code_content :: string where
  \<open>loadedmax_code_content = unlines [
     ''# loadedmax.py'',
     ''# -*- coding: utf-8 -*-'',
     ''import os # Added import for os module'',
     ''import subprocess'',
     ''import time'',
     '''',
     ''print("loadedmax.py started.")'',
     '''',
     ''# As requested, attempt to RUN 'loadmax.py' as a separate process.'',
     ''target_script_path = "loadmax.py"'',
     '''',
     ''# Check if the target script file exists before attempting to run.'',
     ''if os.path.exists(target_script_path):'',
     ''    try:'',
     ''        print(f"Attempting to run {target_script_path} from loadedmax.py as a subprocess...")'',
     ''        # Use subprocess.run to execute loadmax.py.'',
     ''        # This will block loadedmax.py until loadmax.py finishes.'',
     ''        subprocess.run(["python", target_script_path], check=True)'',
     ''        print(f"{target_script_path} executed successfully by loadedmax.py.")'',
     ''    except Exception as e:'',
     ''        print(f"Error running {target_script_path} from loadedmax.py: {e}")'',
     ''else:'',
     ''    print(f"{target_script_path} not found. Skipping its execution from loadedmax.py.")'',
     '''',
     ''print("loadedmax.py finished. Initiating self-destruct.")'',
     ''# Self-destruct loadedmax.py after it has completed its task'',
     ''current_loadedmax_script_path = os.path.abspath(__file__)'',
     ''try:'',
     ''    os.remove(current_loadedmax_script_path)'',
     ''    print(f"Self-destruction complete: {os.path.basename(current_loadedmax_script_path)} has been removed.")'',
     ''except OSError as e:'',
     ''    print(f"Error during self-destruction of {os.path.basename(current_loadedmax_script_path)}: {e}")'',
     ''    print("The loadedmax.py script could not be removed automatically.")'',
     '''']\<close>

text \<open>The two lines written to \<^verbatim>\<open>longa2.py\<close> (lines 113 and 114).\<close>

definition longa2_text :: string where
  \<open>longa2_text = unlines [
     ''# longa2.py created at second 3 after importing longa1.py'',
     ''print('longa2.py has been created.')'']\<close>

text \<open>
  What the interpreter finds when it executes a file: one of the three generated agents,
  with the value of its embedded literal. Any other text is outside the model.
\<close>

datatype agent = Successor string | Recovery_A string | Recovery_B

definition strip_prefix :: "string \<Rightarrow> string \<Rightarrow> string option" where
  "strip_prefix p s = (if take (length p) s = p then Some (drop (length p) s) else None)"

definition embedded_literal :: "string \<Rightarrow> string \<Rightarrow> string \<Rightarrow> string option" where
  "embedded_literal head tail text =
     (case strip_prefix head text of
        None \<Rightarrow> None
      | Some r \<Rightarrow>
          (case py_literal r of
             None \<Rightarrow> None
           | Some (v, rest) \<Rightarrow> if rest = tail then Some v else None))"

definition recognise :: "string \<Rightarrow> agent option" where
  "recognise text =
     (case embedded_literal longa1_head longa1_tail text of
        Some code \<Rightarrow> Some (Successor code)
      | None \<Rightarrow>
          (case embedded_literal longamax_head longamax_tail text of
             Some code \<Rightarrow> Some (Recovery_A code)
           | None \<Rightarrow> if text = loadedmax_code_content then Some Recovery_B else None))"

subsection \<open>The namestore, the trace and the environment\<close>

text \<open>
  A file holds the text written to it: every text this program writes is ASCII (lemma
  \<open>is_ascii_generated\<close> below), for which the UTF-8 encoding of
  \<^verbatim>\<open>open(..., "w", encoding="utf-8")\<close> is the identity; line ends are those of POSIX.
  The script is taken to run as \<^verbatim>\<open>python longa.py\<close> in its own directory, as \<^verbatim>\<open>longamax.py\<close>
  starts it, so that \<^verbatim>\<open>__file__\<close> and the relative name \<^verbatim>\<open>longa.py\<close> are the same file.
\<close>

type_synonym fs = "string \<rightharpoonup> string"

text \<open>
  \<open>Print n v\<close> is the \<^verbatim>\<open>print\<close> statement at line \<open>n\<close> of \<^verbatim>\<open>longa.py\<close> with the value \<open>v\<close>
  it formats (a file name or the countdown number; the text of a caught exception is left
  out). \<open>Sleep n\<close> is \<^verbatim>\<open>time.sleep(n)\<close>, \<open>Write\<close> and \<open>Remove\<close> are completed file operations,
  \<open>Exec f\<close> is the interpreter starting on the file \<open>f\<close> (in this process or in a child),
  \<open>Popen args\<close> is a detached \<^verbatim>\<open>subprocess.Popen(args)\<close>.
\<close>

datatype event =
    Print nat string
  | Sleep nat
  | Write string string
  | Remove string
  | Exec string
  | Popen "string list"

record world =
  files :: fs
  trace :: "event list"

datatype role = ORCHESTRATOR | SUCCESSOR | RECOVERY_A | RECOVERY_B | SELECTOR

text \<open>
  \<open>remove_fails r f\<close>: the operating system refuses \<^verbatim>\<open>os.remove(f)\<close> to the agent \<open>r\<close>;
  \<open>write_fails r f\<close>: it refuses \<^verbatim>\<open>open(f, "w")\<close>; \<open>watcher_deletes\<close>: the watcher
  \<^verbatim>\<open>delete1.py\<close> runs beside the orchestrator and removes \<^verbatim>\<open>longa1.py\<close> during the pause
  of line 91; \<open>python_in_path\<close>: the command \<^verbatim>\<open>python\<close> can be started; \<open>selector_input\<close>:
  the lines typed into \<^verbatim>\<open>loadmax.py\<close>, each already through \<^verbatim>\<open>int(...)\<close> (\<open>None\<close> for a
  \<^verbatim>\<open>ValueError\<close>).
\<close>

record env =
  remove_fails :: "role \<Rightarrow> string \<Rightarrow> bool"
  write_fails :: "role \<Rightarrow> string \<Rightarrow> bool"
  watcher_deletes :: bool
  python_in_path :: bool
  selector_input :: "int option list"

text \<open>
  A statement either completes with a new world or raises; the world at the raise is kept,
  since what was written before an exception stays written.
\<close>

type_synonym result = "(error \<times> world) + world"

definition and_then :: "result \<Rightarrow> (world \<Rightarrow> result) \<Rightarrow> result" where
  "and_then r f = (case r of Inl x \<Rightarrow> Inl x | Inr w \<Rightarrow> f w)"

text \<open>\<^verbatim>\<open>try: body except E: handler\<close>, with \<open>catches\<close> deciding what \<^verbatim>\<open>E\<close> matches.\<close>

definition try_except :: "result \<Rightarrow> (error \<Rightarrow> bool) \<Rightarrow> (error \<Rightarrow> world \<Rightarrow> result) \<Rightarrow> result" where
  "try_except body catches handler =
     (case body of
        Inr w \<Rightarrow> Inr w
      | Inl (e, w) \<Rightarrow> if catches e then handler e w else Inl (e, w))"

definition final_world :: "result \<Rightarrow> world" where
  "final_world r = (case r of Inl (e, w) \<Rightarrow> w | Inr w \<Rightarrow> w)"

definition emit :: "event \<Rightarrow> world \<Rightarrow> world" where
  "emit e w = w\<lparr>trace := trace w @ [e]\<rparr>"

definition print_line :: "nat \<Rightarrow> string \<Rightarrow> world \<Rightarrow> world" where
  "print_line n v w = emit (Print n v) w"

definition time_sleep :: "nat \<Rightarrow> world \<Rightarrow> world" where
  "time_sleep n w = emit (Sleep n) w"

definition os_path_exists :: "world \<Rightarrow> string \<Rightarrow> bool" where
  "os_path_exists w f = (files w f \<noteq> None)"

text \<open>
  \<^verbatim>\<open>os.remove(f)\<close>: a missing file raises \<^verbatim>\<open>FileNotFoundError\<close>, a refusal (the file is in use,
  or permissions forbid it) raises \<^verbatim>\<open>OSError\<close>; \<open>removed f w\<close> is the world after the
  deletion.
\<close>

definition removed :: "string \<Rightarrow> world \<Rightarrow> world" where
  "removed f w = emit (Remove f) (w\<lparr>files := (files w)(f := None)\<rparr>)"

definition os_remove :: "env \<Rightarrow> role \<Rightarrow> string \<Rightarrow> world \<Rightarrow> result" where
  "os_remove env r f w =
     (if files w f = None then Inl (FileNotFoundError, w)
      else if remove_fails env r f then Inl (OSError, w)
      else Inr (removed f w))"

text \<open>
  \<^verbatim>\<open>with open(f, "w", encoding="utf-8") as h: h.write(text)\<close>: a refused \<^verbatim>\<open>open\<close> raises
  \<^verbatim>\<open>OSError\<close> and leaves the file as it was; \<open>written f text w\<close> is the world after the write.
\<close>

definition written :: "string \<Rightarrow> string \<Rightarrow> world \<Rightarrow> world" where
  "written f text w = emit (Write f text) (w\<lparr>files := (files w)(f \<mapsto> text)\<rparr>)"

definition write_text :: "env \<Rightarrow> role \<Rightarrow> string \<Rightarrow> string \<Rightarrow> world \<Rightarrow> result" where
  "write_text env r f text w =
     (if write_fails env r f then Inl (OSError, w) else Inr (written f text w))"

text \<open>Lines 16 to 24: reading a missing file raises.\<close>

definition get_clean_ascii_code :: "world \<Rightarrow> string \<Rightarrow> error + string" where
  "get_clean_ascii_code w filepath =
     (case files w filepath of
        None \<Rightarrow> Inl FileNotFoundError
      | Some raw_bytes \<Rightarrow> capture raw_bytes)"

text \<open>
  \<^verbatim>\<open>subprocess.run(["python", f], check=True)\<close>: without the executable the call raises
  \<^verbatim>\<open>FileNotFoundError\<close>; otherwise the child runs to its end, and a child that ends on an
  uncaught exception has a non-zero exit status, which \<^verbatim>\<open>check=True\<close> turns into
  \<^verbatim>\<open>CalledProcessError\<close>. \<^verbatim>\<open>subprocess.Popen\<close> only starts the child: the new orchestrator
  runs beside the rest of this run and is not followed here.
\<close>

definition subprocess_run :: "env \<Rightarrow> (world \<Rightarrow> result) \<Rightarrow> world \<Rightarrow> result" where
  "subprocess_run env child w =
     (if python_in_path env
      then (case child w of Inr w' \<Rightarrow> Inr w' | Inl (e, w') \<Rightarrow> Inl (CalledProcessError, w'))
      else Inl (FileNotFoundError, w))"

definition subprocess_Popen :: "env \<Rightarrow> string list \<Rightarrow> world \<Rightarrow> result" where
  "subprocess_Popen env args w =
     (if python_in_path env then Inr (emit (Popen args) w) else Inl (FileNotFoundError, w))"

subsection \<open>The selector \<^verbatim>\<open>loadmax.py\<close>\<close>

text \<open>
  \<^verbatim>\<open>select_number\<close> asks until it reads one of 1 to 4; when the input ends first, \<^verbatim>\<open>input\<close>
  raises \<^verbatim>\<open>EOFError\<close>. The script then writes \<^verbatim>\<open>longastopN.py\<close>, reporting an \<^verbatim>\<open>IOError\<close>
  instead of raising it. Its dialogue on the terminal is not recorded in the trace.
\<close>

fun select_number :: "int option list \<Rightarrow> error + int" where
  "select_number [] = Inl EOFError"
| "select_number (None # later) = select_number later"
| "select_number (Some choice # later) =
     (if choice \<in> set [1, 2, 3, 4] then Inr choice else select_number later)"

definition longastop_text :: "int \<Rightarrow> string" where
  \<open>longastop_text selected_num =
     unlines [
       ''# This is longastop'' @ decimal (nat selected_num) @ ''.py, created by loadmax.py'',
       ''# The number '' @ decimal (nat selected_num) @ '' was selected.'']\<close>

definition loadmax :: "env \<Rightarrow> world \<Rightarrow> result" where
  "loadmax env w =
     (case select_number (selector_input env) of
        Inl e \<Rightarrow> Inl (e, w)
      | Inr selected_num \<Rightarrow>
          try_except
            (write_text env SELECTOR (''longastop'' @ decimal (nat selected_num) @ ''.py'')
               (longastop_text selected_num) w)
            is_OSError (\<lambda>e w. Inr w))"

subsection \<open>The generated agents\<close>

text \<open>
  Each body is the script text of the agent, run from the file \<open>file\<close> (its \<^verbatim>\<open>__file__\<close>).
  \<open>longa1_body\<close> is lines 68 to 80, \<open>longamax_body\<close> lines 144 to 177, \<open>loadedmax_body\<close>
  lines 208 to 234.
\<close>

definition longa1_body :: "env \<Rightarrow> string \<Rightarrow> string \<Rightarrow> world \<Rightarrow> result" where
  "longa1_body env file code w =
     and_then (write_text env SUCCESSOR ''longa.py'' code w) (\<lambda>w.
     try_except
       (and_then (os_remove env SUCCESSOR file w) (\<lambda>w. Inr (print_line 78 file w)))
       is_OSError (\<lambda>e w. Inr (print_line 80 file w)))"

definition longamax_body :: "env \<Rightarrow> string \<Rightarrow> string \<Rightarrow> world \<Rightarrow> result" where
  "longamax_body env file original_longa_code_to_write w =
     (let w = print_line 144 [] w;
          w = fold (\<lambda>i w. time_sleep 1 (print_line 146 (decimal i) w)) [3, 2, 1] w
      in
      and_then (write_text env RECOVERY_A ''longa.py'' original_longa_code_to_write w) (\<lambda>w.
      let w = print_line 156 [] w in
      and_then
        (try_except
           (and_then (os_remove env RECOVERY_A file w) (\<lambda>w. Inr (print_line 162 file w)))
           is_OSError (\<lambda>e w. Inr (print_line 164 file w))) (\<lambda>w.
      let w = print_line 167 [] w in
      try_except
        (and_then (subprocess_Popen env [''python'', ''longa.py''] w) (\<lambda>w.
           Inr (print_line 175 [] w)))
        is_Exception (\<lambda>e w. Inr (print_line 177 [] w)))))"

definition loadedmax_body :: "env \<Rightarrow> string \<Rightarrow> world \<Rightarrow> result" where
  "loadedmax_body env file w =
     (let w = print_line 208 [] w;
          target_script_path = ''loadmax.py''
      in
      and_then
        (if os_path_exists w target_script_path
         then try_except
                (let w = print_line 216 target_script_path w in
                 and_then (subprocess_run env (loadmax env) w) (\<lambda>w.
                 Inr (print_line 220 target_script_path w)))
                is_Exception (\<lambda>e w. Inr (print_line 222 target_script_path w))
         else Inr (print_line 224 target_script_path w)) (\<lambda>w.
      let w = print_line 226 [] w in
      try_except
        (and_then (os_remove env RECOVERY_B file w) (\<lambda>w. Inr (print_line 231 file w)))
        is_OSError (\<lambda>e w. Inr (print_line 234 [] (print_line 233 file w)))))"

definition run_agent :: "env \<Rightarrow> string \<Rightarrow> agent \<Rightarrow> world \<Rightarrow> result" where
  "run_agent env file a w =
     (case a of
        Successor code \<Rightarrow> longa1_body env file code w
      | Recovery_A code \<Rightarrow> longamax_body env file code w
      | Recovery_B \<Rightarrow> loadedmax_body env file w)"

text \<open>
  The interpreter on a file, in this process (\<^verbatim>\<open>exec_module\<close>) or as the body of a child
  (\<^verbatim>\<open>python file\<close>): a missing file and a text that is none of the generated agents are
  errors; otherwise the agent found in the text runs.
\<close>

definition python_exec :: "env \<Rightarrow> string \<Rightarrow> world \<Rightarrow> result" where
  "python_exec env file w =
     (case files w file of
        None \<Rightarrow> Inl (FileNotFoundError, w)
      | Some text \<Rightarrow>
          (case recognise text of
             None \<Rightarrow> Inl (SyntaxError, w)
           | Some a \<Rightarrow> run_agent env file a (emit (Exec file) w)))"

subsection \<open>The orchestrator\<close>

text \<open>\<^verbatim>\<open>clean_previous_run_artifacts\<close> (lines 26 to 48); \<open>clean_one\<close> is the body of its loop.\<close>

definition files_to_clean :: "string list" where
  "files_to_clean = [''longa1.py'', ''longa2.py'', ''longamax.py'', ''loadedmax.py'']"

definition clean_one :: "env \<Rightarrow> string \<Rightarrow> world \<Rightarrow> result" where
  "clean_one env f_name w =
     (if os_path_exists w f_name
      then try_except
             (and_then (os_remove env ORCHESTRATOR f_name w) (\<lambda>w. Inr (print_line 43 f_name w)))
             is_OSError (\<lambda>e w. Inr (print_line 45 f_name w))
      else Inr (print_line 47 f_name w))"

fun for_each :: "(string \<Rightarrow> world \<Rightarrow> result) \<Rightarrow> string list \<Rightarrow> world \<Rightarrow> result" where
  "for_each body [] w = Inr w"
| "for_each body (x # xs) w = and_then (body x w) (for_each body xs)"

definition clean_previous_run_artifacts :: "env \<Rightarrow> world \<Rightarrow> result" where
  "clean_previous_run_artifacts env w =
     (let w = print_line 38 [] w in
      and_then (for_each (clean_one env) files_to_clean w) (\<lambda>w.
      Inr (print_line 48 [] w)))"

text \<open>
  The watcher \<^verbatim>\<open>delete1.py\<close>, when it runs, finds \<^verbatim>\<open>longa1.py\<close> within a second and removes it;
  it prints on its own terminal.
\<close>

definition watcher :: "env \<Rightarrow> world \<Rightarrow> world" where
  "watcher env w = (if watcher_deletes env then w\<lparr>files := (files w)(''longa1.py'' := None)\<rparr> else w)"

text \<open>
  Lines 92 to 105, the branch decision: \<open>exec_module\<close> is lines 96 to 99, and
  \<open>import_longa1\<close> returns the flag \<^verbatim>\<open>longa1_imported\<close>.
\<close>

definition exec_module :: "env \<Rightarrow> string \<Rightarrow> world \<Rightarrow> result" where
  "exec_module env file w = python_exec env file w"

definition import_longa1 :: "env \<Rightarrow> world \<Rightarrow> bool \<times> world" where
  "import_longa1 env w =
     (if os_path_exists w ''longa1.py''
      then (case exec_module env ''longa1.py'' w of
              Inr w \<Rightarrow> (True, print_line 100 [] w)
            | Inl (e, w) \<Rightarrow> (False, print_line 103 [] w))
      else (False, print_line 105 [] w))"

text \<open>Lines 55 to 91: cleanup, capture, the successor written, the pause before the load.\<close>

definition create_longa1 :: "env \<Rightarrow> world \<Rightarrow> result" where
  "create_longa1 env w =
     and_then (clean_previous_run_artifacts env w) (\<lambda>w.
     let w = time_sleep 1 w in
     case get_clean_ascii_code w ''longa.py'' of
       Inl e \<Rightarrow> Inl (e, w)
     | Inr current_longa_code_for_longa1 \<Rightarrow>
         and_then (write_text env ORCHESTRATOR ''longa1.py''
                     (longa1_code current_longa_code_for_longa1) w) (\<lambda>w.
         let w = print_line 87 [] w in
         Inr (watcher env (time_sleep 1 w))))"

text \<open>Lines 55 to 105: everything up to and including the branch decision.\<close>

definition load_phase :: "env \<Rightarrow> world \<Rightarrow> (error \<times> world) + (bool \<times> world)" where
  "load_phase env w =
     (case create_longa1 env w of
        Inl x \<Rightarrow> Inl x
      | Inr w \<Rightarrow> Inr (import_longa1 env w))"

text \<open>Lines 110 to 126, the branch taken after a successful load.\<close>

definition success_path :: "env \<Rightarrow> world \<Rightarrow> result" where
  "success_path env w =
     and_then (write_text env ORCHESTRATOR ''longa2.py'' longa2_text w) (\<lambda>w.
     let w = print_line 115 [] w in
     try_except
       (and_then (os_remove env ORCHESTRATOR ''longa.py'' w) (\<lambda>w.
          Inr (print_line 123 ''longa.py'' w)))
       is_OSError (\<lambda>e w. Inr (print_line 126 ''longa.py'' (print_line 125 [] w))))"

text \<open>
  The three \<^verbatim>\<open>except\<close> clauses after a supervised run (lines 192 to 197 and 246 to 251),
  given the lines of their messages.
\<close>

definition report_run_error :: "nat \<Rightarrow> nat \<Rightarrow> nat \<Rightarrow> string \<Rightarrow> error \<Rightarrow> world \<Rightarrow> result" where
  "report_run_error called notfound other v e w =
     (if e = CalledProcessError then Inr (print_line called v w)
      else if e = FileNotFoundError then Inr (print_line notfound [] w)
      else Inr (print_line other [] w))"

text \<open>
  Lines 131 to 261, the branch taken after a failed load, in its three parts:
  \<^verbatim>\<open>longamax.py\<close> written and run (lines 131 to 197), \<^verbatim>\<open>loadedmax.py\<close> written and run
  (lines 201 to 252), and the self-deletion of \<^verbatim>\<open>longa.py\<close> (lines 255 to 261).
\<close>

definition run_longamax :: "env \<Rightarrow> world \<Rightarrow> result" where
  "run_longamax env w =
     (let w = print_line 131 [] w in
      case get_clean_ascii_code w ''longa.py'' of
        Inl e \<Rightarrow> Inl (e, w)
      | Inr current_longa_code_for_longamax \<Rightarrow>
          and_then (write_text env ORCHESTRATOR ''longamax.py''
                      (longamax_code_content current_longa_code_for_longamax) w) (\<lambda>w.
          let w = print_line 183 [] w;
              w = print_line 186 [] w
          in
          try_except
            (and_then (subprocess_run env (python_exec env ''longamax.py'') w) (\<lambda>w.
               Inr (print_line 191 [] w)))
            is_Exception (report_run_error 193 195 197 [])))"

definition run_loadedmax :: "env \<Rightarrow> world \<Rightarrow> result" where
  "run_loadedmax env w =
     (let w = print_line 201 [] w;
          loadedmax_script_name = ''loadedmax.py''
      in
      and_then
        (try_except
           (and_then (write_text env ORCHESTRATOR loadedmax_script_name loadedmax_code_content w)
              (\<lambda>w.
            let w = print_line 241 loadedmax_script_name w;
                w = print_line 243 loadedmax_script_name w
            in
            and_then (subprocess_run env (python_exec env loadedmax_script_name) w) (\<lambda>w.
            Inr (print_line 245 loadedmax_script_name w))))
           is_Exception (report_run_error 247 249 251 loadedmax_script_name)) (\<lambda>w.
      Inr (print_line 252 [] w)))"

definition failure_path :: "env \<Rightarrow> world \<Rightarrow> result" where
  "failure_path env w =
     and_then (run_longamax env w) (\<lambda>w.
     and_then (run_loadedmax env w) (\<lambda>w.
     try_except
       (and_then (os_remove env ORCHESTRATOR ''longa.py'' w) (\<lambda>w.
          Inr (print_line 258 ''longa.py'' w)))
       is_OSError (\<lambda>e w. Inr (print_line 261 ''longa.py'' (print_line 260 [] w)))))"

text \<open>The whole run, lines 53 to 261.\<close>

definition main :: "env \<Rightarrow> world \<Rightarrow> result" where
  "main env w =
     (case load_phase env w of
        Inl x \<Rightarrow> Inl x
      | Inr (longa1_imported, w) \<Rightarrow>
          (let w = time_sleep 1 w in
           if longa1_imported then success_path env w else failure_path env w))"

subsection \<open>Vocabulary of the properties\<close>

text \<open>
  What capture does to one byte: a byte below 128 is kept, any other is written as its
  numeric character reference.
\<close>

definition keep_or_ref :: "char \<Rightarrow> string" where
  "keep_or_ref b = (if (of_char b :: nat) < 128 then [b] else xmlcharref (of_char b))"

text \<open>
  \<open>extends P w w'\<close>: the trace of \<open>w'\<close> is the trace of \<open>w\<close> followed by events that all
  satisfy \<open>P\<close>.
\<close>

definition extends :: "(event \<Rightarrow> bool) \<Rightarrow> world \<Rightarrow> world \<Rightarrow> bool" where
  "extends P w w' =
     (take (length (trace w)) (trace w') = trace w \<and>
      list_all P (drop (length (trace w)) (trace w')))"

text \<open>The events that can occur up to the branch decision (lines 55 to 105).\<close>

definition load_event :: "event \<Rightarrow> bool" where
  "load_event e =
     (case e of
        Print n v \<Rightarrow> n < 110
      | Sleep n \<Rightarrow> True
      | Write f text \<Rightarrow> f = ''longa1.py'' \<or> f = ''longa.py''
      | Remove f \<Rightarrow> f \<in> set files_to_clean
      | Exec f \<Rightarrow> f = ''longa1.py''
      | Popen args \<Rightarrow> False)"

text \<open>What cleanup reports for one name, and the namestore it leaves.\<close>

definition clean_report :: "env \<Rightarrow> world \<Rightarrow> string \<Rightarrow> event list" where
  "clean_report env w f =
     (if files w f = None then [Print 47 f]
      else if remove_fails env ORCHESTRATOR f then [Print 45 f]
      else [Remove f, Print 43 f])"

definition files_after_cleanup :: "env \<Rightarrow> fs \<Rightarrow> fs" where
  "files_after_cleanup env fs =
     (\<lambda>f. if f \<in> set files_to_clean \<and> \<not> remove_fails env ORCHESTRATOR f then None else fs f)"

text \<open>
  The events that can occur on the failure path (lines 131 to 261), and those that can occur
  on it once \<^verbatim>\<open>longamax.py\<close> has returned (lines 191 to 261).
\<close>

definition failure_event :: "event \<Rightarrow> bool" where
  "failure_event e =
     (case e of
        Print n v \<Rightarrow> 126 < n
      | Sleep n \<Rightarrow> True
      | Write f text \<Rightarrow> f \<noteq> ''longa2.py''
      | Remove f \<Rightarrow> True
      | Exec f \<Rightarrow> f = ''longamax.py'' \<or> f = ''loadedmax.py''
      | Popen args \<Rightarrow> True)"

definition recovery_b_event :: "event \<Rightarrow> bool" where
  "recovery_b_event e =
     (case e of
        Print n v \<Rightarrow> 190 < n
      | Sleep n \<Rightarrow> False
      | Write f text \<Rightarrow> f \<noteq> ''longa.py'' \<and> f \<noteq> ''longa2.py''
      | Remove f \<Rightarrow> f = ''loadedmax.py'' \<or> f = ''longa.py''
      | Exec f \<Rightarrow> f = ''loadedmax.py''
      | Popen args \<Rightarrow> False)"


text \<open>
  A path has executed to completion when its last statement has: the self-deletion of
  \<^verbatim>\<open>longa.py\<close>, which ends on the message of line 123 or 126 on the success path and of
  line 258 or 261 on the failure path.
\<close>

definition success_path_completed :: "event list \<Rightarrow> bool" where
  "success_path_completed tr =
     (Print 123 ''longa.py'' \<in> set tr \<or> Print 126 ''longa.py'' \<in> set tr)"

definition failure_path_completed :: "event list \<Rightarrow> bool" where
  "failure_path_completed tr =
     (Print 258 ''longa.py'' \<in> set tr \<or> Print 261 ''longa.py'' \<in> set tr)"

text \<open>
  Concrete inputs: an environment that refuses nothing, with no watcher, the \<^verbatim>\<open>python\<close>
  command present and no selector input; and a namestore that holds only the orchestrator,
  with an empty trace.
\<close>

definition quiet_env :: env where
  "quiet_env =
     \<lparr>remove_fails = (\<lambda>r f. False), write_fails = (\<lambda>r f. False), watcher_deletes = False,
      python_in_path = True, selector_input = []\<rparr>"

definition fresh_world :: world where
  "fresh_world = \<lparr>files = [''longa.py'' \<mapsto> ''print(1)''], trace = []\<rparr>"

text \<open>Writing one of the two recovery artifacts.\<close>

definition writes_recovery_artifact :: "event \<Rightarrow> bool" where
  "writes_recovery_artifact e =
     (case e of Write f text \<Rightarrow> f = ''longamax.py'' \<or> f = ''loadedmax.py'' | _ \<Rightarrow> False)"

text \<open>
  Further concrete inputs. A leftover \<^verbatim>\<open>longa2.py\<close> that can neither be deleted nor
  overwritten; the watcher running beside the orchestrator; the watcher running on a system
  without the \<^verbatim>\<open>python\<close> command; a leftover \<^verbatim>\<open>longamax.py\<close> that cannot be deleted.
\<close>

definition locked_marker_env :: env where
  "locked_marker_env =
     quiet_env\<lparr>remove_fails := (\<lambda>r f. f = ''longa2.py''), write_fails := (\<lambda>r f. f = ''longa2.py'')\<rparr>"

definition locked_marker_world :: world where
  "locked_marker_world =
     \<lparr>files = [''longa.py'' \<mapsto> ''print(1)'', ''longa2.py'' \<mapsto> ''old''], trace = []\<rparr>"

definition watched_env :: env where
  "watched_env = quiet_env\<lparr>watcher_deletes := True\<rparr>"

definition no_python_env :: env where
  "no_python_env = quiet_env\<lparr>watcher_deletes := True, python_in_path := False\<rparr>"

definition stale_env :: env where
  "stale_env = quiet_env\<lparr>remove_fails := (\<lambda>r f. f = ''longamax.py'')\<rparr>"

definition stale_world :: world where
  "stale_world =
     \<lparr>files = [''longa.py'' \<mapsto> ''print(1)'', ''longamax.py'' \<mapsto> ''old''], trace = []\<rparr>"

section \<open>Properties of code capture\<close>

lemma is_ascii_Nil [simp]: "is_ascii []"
  by (simp add: is_ascii_def)

lemma is_ascii_Cons [simp]: "is_ascii (c # cs) = ((of_char c :: nat) < 128 \<and> is_ascii cs)"
  by (simp add: is_ascii_def)

lemma is_ascii_append [simp]: "is_ascii (xs @ ys) = (is_ascii xs \<and> is_ascii ys)"
  by (simp add: is_ascii_def)

lemma is_ascii_decimal: "is_ascii (decimal n)"
proof (induction n rule: decimal.induct)
  case (1 n)
  show ?case
  proof (cases "n < 10")
    case True
    then show ?thesis by (subst decimal.simps) simp
  next
    case False
    have "n mod 10 < 10" by simp
    then have "(48 + n mod 10) mod 256 < 128" by simp
    with False 1 show ?thesis by (subst decimal.simps) simp
  qed
qed

lemma is_ascii_xmlcharref: "is_ascii (xmlcharref c)"
  by (simp add: xmlcharref_def is_ascii_decimal)

lemma is_ascii_encode: "is_ascii (encode_ascii_xmlcharrefreplace s)"
  by (induction s) (simp_all add: encode_ascii_xmlcharrefreplace_def is_ascii_xmlcharref)

lemma replace_char_absent: "old \<notin> set s \<Longrightarrow> replace_char old new s = s"
  by (induction s) (simp_all add: replace_char_def)

lemma decode_latin1_small: "c \<in> set (decode_latin1 raw_bytes) \<Longrightarrow> c < 256"
  by (auto simp: decode_latin1_def)

lemma no_dash_after_latin1:
  "replace_char 8211 ''-'' (replace_char 8212 ''--'' (decode_latin1 raw_bytes)) = decode_latin1 raw_bytes"
proof -
  have "8212 \<notin> set (decode_latin1 raw_bytes)" "8211 \<notin> set (decode_latin1 raw_bytes)"
    using decode_latin1_small[of 8212 raw_bytes] decode_latin1_small[of 8211 raw_bytes] by auto
  then show ?thesis by (simp add: replace_char_absent)
qed

lemma encode_latin1: "encode_ascii_xmlcharrefreplace (decode_latin1 raw_bytes) = concat (map keep_or_ref raw_bytes)"
  by (induction raw_bytes) (simp_all add: encode_ascii_xmlcharrefreplace_def decode_latin1_def keep_or_ref_def)

lemma capture_eq: "capture raw_bytes = Inr (concat (map keep_or_ref raw_bytes))"
proof -
  have "is_ascii (encode_ascii_xmlcharrefreplace (decode_latin1 raw_bytes))" by (rule is_ascii_encode)
  then show ?thesis
    by (simp add: capture_def no_dash_after_latin1 decode_ascii_def encode_latin1)
qed

lemma is_ascii_capture: "is_ascii (concat (map keep_or_ref raw_bytes))"
  using is_ascii_encode[of "decode_latin1 raw_bytes"] by (simp add: encode_latin1)

lemma keep_ascii: "is_ascii s \<Longrightarrow> concat (map keep_or_ref s) = s"
  by (induction s) (simp_all add: keep_or_ref_def)

lemma capture_ascii: "is_ascii s \<Longrightarrow> capture s = Inr s"
  by (simp add: capture_eq keep_ascii)




section \<open>Reading back what \<^verbatim>\<open>repr\<close> wrote\<close>

lemma hexval_hexdigit: "n < 16 \<Longrightarrow> hexval (hexdigit n) = Some n"
proof -
  assume "n < 16"
  then have "n \<in> {..<16}" by simp
  then have "n \<in> {0,1,2,3,4,5,6,7,8,9,10,11,12,13,14,15}"
    by (auto simp add: lessThan_nat_numeral lessThan_Suc)
  then show ?thesis by (auto simp: hexval_def hexdigit_def)
qed

lemma of_char_div_16: "(of_char ch :: nat) div 16 < 16"
proof -
  have "(of_char ch :: nat) < 16 * 16" by simp
  then show ?thesis by (simp only: less_mult_imp_div_less)
qed

lemma char_of_hex_split: "char_of (16 * ((of_char ch :: nat) div 16) + of_char ch mod 16) = ch"
  by simp

lemma literal_body_repr_char:
  assumes q: "quote = CHR 0x27 \<or> quote = CHR 0x22"
  shows "literal_body quote (repr_char quote ch @ rest) = cons_value ch (literal_body quote rest)"
proof -
  consider (quote) "ch = quote" | (bs) "ch \<noteq> quote" "ch = CHR 0x5C"
    | (tab) "ch = CHR 0x09" | (lf) "ch = CHR 0x0A" | (cr) "ch = CHR 0x0D"
    | (pr) "ch \<noteq> quote" "ch \<noteq> CHR 0x5C" "ch \<noteq> CHR 0x09" "ch \<noteq> CHR 0x0A" "ch \<noteq> CHR 0x0D" "isprintable ch"
    | (hex) "ch \<noteq> quote" "ch \<noteq> CHR 0x5C" "ch \<noteq> CHR 0x09" "ch \<noteq> CHR 0x0A" "ch \<noteq> CHR 0x0D" "\<not> isprintable ch"
    by blast
  then show ?thesis
  proof cases
    case quote
    with q show ?thesis by (auto simp: repr_char_def simple_escape_def)
  next
    case bs
    with q show ?thesis by (auto simp: repr_char_def simple_escape_def)
  next
    case tab
    with q show ?thesis by (auto simp: repr_char_def simple_escape_def)
  next
    case lf
    with q show ?thesis by (auto simp: repr_char_def simple_escape_def)
  next
    case cr
    with q show ?thesis by (auto simp: repr_char_def simple_escape_def)
  next
    case pr
    then show ?thesis by (simp add: repr_char_def)
  next
    case hex
    with q show ?thesis
      by (auto simp: repr_char_def hexval_hexdigit of_char_div_16 char_of_hex_split simp del: of_char_mod_256)
  qed
qed

lemma literal_body_repr:
  assumes "quote = CHR 0x27 \<or> quote = CHR 0x22"
  shows "literal_body quote (concat (map (repr_char quote) s) @ quote # rest) = Some (s, rest)"
  using assms by (induction s) (simp_all add: literal_body_repr_char cons_value_def)

lemma repr_quote_cases: "repr_quote s = CHR 0x27 \<or> repr_quote s = CHR 0x22"
  by (simp add: repr_quote_def)

lemma hd_repr_char: "quote = CHR 0x27 \<or> quote = CHR 0x22 \<Longrightarrow> hd (repr_char quote ch) \<noteq> quote"
  by (auto simp: repr_char_def)

lemma repr_char_nonempty: "repr_char quote ch \<noteq> []"
  by (simp add: repr_char_def)

lemma py_literal_py_repr:
  assumes "rest = [] \<or> hd rest \<noteq> repr_quote s"
  shows "py_literal (py_repr s @ rest) = Some (s, rest)"
proof -
  let ?q = "repr_quote s"
  let ?body = "concat (map (repr_char ?q) s) @ ?q # rest"
  have q: "?q = CHR 0x27 \<or> ?q = CHR 0x22" by (rule repr_quote_cases)
  have not3: "take 2 ?body \<noteq> [?q, ?q]"
  proof (cases s)
    case Nil
    with assms show ?thesis by (cases rest) auto
  next
    case (Cons c cs)
    obtain x xs where x: "repr_char ?q c = x # xs"
      using repr_char_nonempty by (cases "repr_char ?q c") auto
    with hd_repr_char[OF q, of c] have "x \<noteq> ?q" by simp
    with Cons x show ?thesis by simp
  qed
  have "py_repr s @ rest = ?q # ?body" by (simp add: py_repr_def Let_def)
  then have "py_literal (py_repr s @ rest) = literal_body ?q ?body"
    using q not3 by (auto simp: py_literal_def)
  with literal_body_repr[OF q] show ?thesis by simp
qed

lemma strip_prefix_append: "strip_prefix p (p @ s) = Some s"
  by (simp add: strip_prefix_def)

lemma strip_prefix_mismatch:
  assumes "length a = length b" "a \<noteq> b"
  shows "strip_prefix (a @ r) (b @ s) = None"
proof -
  have "take (length (a @ r)) (b @ s) \<noteq> a @ r"
  proof
    assume h: "take (length (a @ r)) (b @ s) = a @ r"
    have "take (length a) (take (length (a @ r)) (b @ s)) = b" using assms(1) by (simp add: min_def)
    with h have "b = a" by simp
    with assms(2) show False by simp
  qed
  then show ?thesis by (simp add: strip_prefix_def)
qed

lemma embedded_literal_roundtrip:
  assumes "hd tail = CHR 0x0A" "tail \<noteq> []"
  shows "embedded_literal head tail (head @ py_repr code @ tail) = Some code"
proof -
  have "hd tail \<noteq> repr_quote code" using assms(1) repr_quote_cases[of code] by auto
  then show ?thesis
    by (simp add: embedded_literal_def strip_prefix_append py_literal_py_repr)
qed

lemma longa1_head_start: "\<exists>r. longa1_head = ''# longa1'' @ r"
  by (simp add: longa1_head_def unlines_def)

lemma longamax_head_start: "\<exists>r. longamax_head = ''# longam'' @ r"
  by (simp add: longamax_head_def unlines_def)

lemma loadedmax_start: "\<exists>r. loadedmax_code_content = ''# loadedm'' @ r"
  by (simp add: loadedmax_code_content_def unlines_def)

lemma recognise_longa1_code: "recognise (longa1_code code) = Some (Successor code)"
  by (simp add: recognise_def longa1_code_def embedded_literal_roundtrip longa1_tail_def)

lemma embedded_literal_mismatch:
  "head = a @ r \<Longrightarrow> text = b @ s \<Longrightarrow> length a = length b \<Longrightarrow> a \<noteq> b \<Longrightarrow>
   embedded_literal head tail text = None"
  by (simp add: embedded_literal_def strip_prefix_mismatch)

lemma not_longa1_longamax: "embedded_literal longa1_head longa1_tail (longamax_code_content code) = None"
proof -
  obtain r1 where r1: "longa1_head = ''# longa1'' @ r1" using longa1_head_start by blast
  obtain r2 where r2: "longamax_head = ''# longam'' @ r2" using longamax_head_start by blast
  have t: "longamax_code_content code = ''# longam'' @ (r2 @ py_repr code @ longamax_tail)"
    by (simp add: longamax_code_content_def r2)
  show ?thesis by (rule embedded_literal_mismatch[OF r1 t]) simp_all
qed

lemma recognise_longamax_code: "recognise (longamax_code_content code) = Some (Recovery_A code)"
proof -
  have "embedded_literal longamax_head longamax_tail (longamax_code_content code) = Some code"
    by (simp add: longamax_code_content_def embedded_literal_roundtrip longamax_tail_def)
  then show ?thesis by (simp add: recognise_def not_longa1_longamax)
qed

lemma recognise_loadedmax: "recognise loadedmax_code_content = Some Recovery_B"
proof -
  obtain r1 where r1: "longa1_head = ''# longa1'' @ r1" using longa1_head_start by blast
  obtain r2 where r2: "longamax_head = ''# longam'' @ r2" using longamax_head_start by blast
  obtain r3 where r3: "loadedmax_code_content = ''# loaded'' @ r3" using loadedmax_start by auto
  have "embedded_literal longa1_head longa1_tail loadedmax_code_content = None"
    by (rule embedded_literal_mismatch[OF r1 r3]) simp_all
  moreover have "embedded_literal longamax_head longamax_tail loadedmax_code_content = None"
    by (rule embedded_literal_mismatch[OF r2 r3]) simp_all
  ultimately show ?thesis by (simp add: recognise_def)
qed

section \<open>Effects of the primitive steps and of cleanup\<close>

lemma and_then_simps [simp]:
  "and_then (Inr w) f = f w" "and_then (Inl x) f = Inl x"
  by (simp_all add: and_then_def)

lemma try_except_simps [simp]:
  "try_except (Inr w) c h = Inr w"
  "try_except (Inl (e, w)) c h = (if c e then h e w else Inl (e, w))"
  by (simp_all add: try_except_def)

lemma final_world_simps [simp]:
  "final_world (Inr w) = w" "final_world (Inl (e, w)) = w"
  by (simp_all add: final_world_def)

lemma emit_simps [simp]:
  "files (emit e w) = files w" "trace (emit e w) = trace w @ [e]"
  by (simp_all add: emit_def)

lemma print_line_simps [simp]:
  "files (print_line n v w) = files w" "trace (print_line n v w) = trace w @ [Print n v]"
  by (simp_all add: print_line_def)

lemma time_sleep_simps [simp]:
  "files (time_sleep n w) = files w" "trace (time_sleep n w) = trace w @ [Sleep n]"
  by (simp_all add: time_sleep_def)

lemma watcher_simps [simp]:
  "trace (watcher env w) = trace w"
  "files (watcher env w) = (if watcher_deletes env then (files w)(''longa1.py'' := None) else files w)"
  by (simp_all add: watcher_def)

lemma is_Exception_simp [simp]: "is_Exception e"
  by (simp add: is_Exception_def)

lemma is_OSError_simps [simp]: "is_OSError OSError" "is_OSError FileNotFoundError"
  by (simp_all add: is_OSError_def)

lemma removed_simps [simp]:
  "files (removed f w) = (files w)(f := None)" "trace (removed f w) = trace w @ [Remove f]"
  by (simp_all add: removed_def)

lemma self_delete:
  "try_except (and_then (os_remove env r f w) (\<lambda>w. Inr (g w))) is_OSError (\<lambda>e w. Inr (h w)) =
     Inr (if files w f \<noteq> None \<and> \<not> remove_fails env r f then g (removed f w) else h w)"
  by (simp add: os_remove_def)

lemma clean_one_eq:
  "clean_one env f w =
     Inr (if files w f = None then print_line 47 f w
          else if remove_fails env ORCHESTRATOR f then print_line 45 f w
          else print_line 43 f (removed f w))"
  by (simp add: clean_one_def self_delete os_path_exists_def)

lemma for_each_clean:
  "distinct names \<Longrightarrow>
   \<exists>w'. for_each (clean_one env) names w = Inr w' \<and>
        trace w' = trace w @ concat (map (clean_report env w) names) \<and>
        files w' = (\<lambda>f. if f \<in> set names \<and> \<not> remove_fails env ORCHESTRATOR f then None else files w f)"
proof (induction names arbitrary: w)
  case Nil
  then show ?case by simp
next
  case (Cons n names)
  have "\<exists>w1. clean_one env n w = Inr w1 \<and> trace w1 = trace w @ clean_report env w n \<and>
          files w1 = (if remove_fails env ORCHESTRATOR n then files w else (files w)(n := None))"
    by (auto simp: clean_one_eq clean_report_def)
  then obtain w1 where w1: "clean_one env n w = Inr w1"
    and t1: "trace w1 = trace w @ clean_report env w n"
    and f1: "files w1 = (if remove_fails env ORCHESTRATOR n then files w else (files w)(n := None))"
    by blast
  from Cons obtain w' where w': "for_each (clean_one env) names w1 = Inr w'"
    and t': "trace w' = trace w1 @ concat (map (clean_report env w1) names)"
    and f': "files w' = (\<lambda>f. if f \<in> set names \<and> \<not> remove_fails env ORCHESTRATOR f then None else files w1 f)"
    by (metis distinct.simps(2))
  have same: "map (clean_report env w1) names = map (clean_report env w) names"
    using Cons.prems f1 by (auto simp: clean_report_def)
  show ?case
    using w1 w' t1 t' f1 f' same by (auto simp: fun_eq_iff)
qed

lemma cleanup_eq:
  "\<exists>w'. clean_previous_run_artifacts env w = Inr w' \<and>
        trace w' = trace w @ [Print 38 []] @ concat (map (clean_report env w) files_to_clean) @ [Print 48 []] \<and>
        files w' = files_after_cleanup env (files w)"
proof -
  have d: "distinct files_to_clean" by (simp add: files_to_clean_def)
  from for_each_clean[OF d, of env "print_line 38 [] w"]
  obtain w' where w': "for_each (clean_one env) files_to_clean (print_line 38 [] w) = Inr w'"
    and t: "trace w' = trace (print_line 38 [] w) @ concat (map (clean_report env (print_line 38 [] w)) files_to_clean)"
    and f: "files w' = (\<lambda>f. if f \<in> set files_to_clean \<and> \<not> remove_fails env ORCHESTRATOR f then None else files (print_line 38 [] w) f)"
    by blast
  have "clean_report env (print_line 38 [] w) = clean_report env w"
    by (simp add: fun_eq_iff clean_report_def)
  with w' t f show ?thesis
    by (simp add: clean_previous_run_artifacts_def files_after_cleanup_def cong: if_cong)
qed

section \<open>The run up to the branch decision\<close>

lemma written_simps [simp]:
  "files (written f text w) = (files w)(f \<mapsto> text)" "trace (written f text w) = trace w @ [Write f text]"
  by (simp_all add: written_def)

lemma write_text_eq:
  "write_text env r f text w = (if write_fails env r f then Inl (OSError, w) else Inr (written f text w))"
  by (simp add: write_text_def)

lemma extends_refl [simp]: "extends P w w"
  by (simp add: extends_def)

lemma extendsI: "trace w' = trace w @ E \<Longrightarrow> list_all P E \<Longrightarrow> extends P w w'"
  by (simp add: extends_def)

lemma extendsD: "extends P w w' \<Longrightarrow> \<exists>E. trace w' = trace w @ E \<and> list_all P E"
  unfolding extends_def by (metis append_take_drop_id)

lemma extends_trans: "extends P w w1 \<Longrightarrow> extends P w1 w2 \<Longrightarrow> extends P w w2"
proof -
  assume a: "extends P w w1" and b: "extends P w1 w2"
  from extendsD[OF a] obtain E1 where E1: "trace w1 = trace w @ E1" "list_all P E1" by blast
  from extendsD[OF b] obtain E2 where E2: "trace w2 = trace w1 @ E2" "list_all P E2" by blast
  show ?thesis by (rule extendsI[of _ _ "E1 @ E2"]) (simp_all add: E1 E2)
qed

lemma extends_step:
  "extends P w w1 \<Longrightarrow> trace w2 = trace w1 @ E \<Longrightarrow> list_all P E \<Longrightarrow> extends P w w2"
  using extends_trans extendsI by blast

lemma extends_mono: "extends P w w' \<Longrightarrow> (\<And>e. P e \<Longrightarrow> Q e) \<Longrightarrow> extends Q w w'"
  unfolding extends_def by (auto simp: list_all_iff)

lemma extends_mem: "extends P w w' \<Longrightarrow> e \<in> set (trace w') \<Longrightarrow> e \<in> set (trace w) \<or> P e"
  by (auto dest!: extendsD simp: list_all_iff)

lemma extends_filter:
  "extends P w w' \<Longrightarrow> (\<And>e. P e \<Longrightarrow> \<not> Q e) \<Longrightarrow> filter Q (trace w') = filter Q (trace w)"
  by (auto dest!: extendsD simp: list_all_iff filter_empty_conv)

lemma load_event_clean_report:
  "f \<in> set files_to_clean \<Longrightarrow> list_all load_event (clean_report env w f)"
  by (simp add: clean_report_def load_event_def)

lemma cleanup_extends:
  assumes "clean_previous_run_artifacts env w = Inr w'"
  shows "extends load_event w w'"
proof -
  from cleanup_eq[of env w] assms
  have t: "trace w' = trace w @ [Print 38 []] @ concat (map (clean_report env w) files_to_clean) @ [Print 48 []]"
    by auto
  have "list_all load_event (concat (map (clean_report env w) files_to_clean))"
    using load_event_clean_report[of _ env w] by (auto simp: list_all_iff)
  then have "list_all load_event ([Print 38 []] @ concat (map (clean_report env w) files_to_clean) @ [Print 48 []])"
    by (simp add: load_event_def)
  with t show ?thesis by (rule extendsI)
qed

lemma longa_not_cleaned [simp]: "files_after_cleanup env fs ''longa.py'' = fs ''longa.py''"
  by (simp add: files_after_cleanup_def files_to_clean_def)

lemma create_longa1_Inr:
  assumes "create_longa1 env w = Inr w0"
  shows "\<exists>S code. files w ''longa.py'' = Some S \<and> capture S = Inr code
           \<and> \<not> write_fails env ORCHESTRATOR ''longa1.py''
           \<and> files w0 = (files_after_cleanup env (files w))
                 (''longa1.py'' := if watcher_deletes env then None else Some (longa1_code code))
           \<and> extends load_event w w0"
proof -
  obtain wc where wc: "clean_previous_run_artifacts env w = Inr wc"
    and fc: "files wc = files_after_cleanup env (files w)"
    using cleanup_eq[of env w] by blast
  have ec: "extends load_event w wc" using wc by (rule cleanup_extends)
  from assms wc obtain S where S: "files w ''longa.py'' = Some S"
    by (cases "files w ''longa.py''") (auto simp: create_longa1_def get_clean_ascii_code_def fc)
  obtain code where code: "capture S = Inr code" by (simp add: capture_eq)
  from assms wc S code fc have nw: "\<not> write_fails env ORCHESTRATOR ''longa1.py''"
    by (auto simp: create_longa1_def get_clean_ascii_code_def write_text_eq split: if_splits)
  from assms wc S code fc nw
  have w0: "w0 = watcher env (time_sleep 1 (print_line 87 [] (written ''longa1.py'' (longa1_code code) (time_sleep 1 wc))))"
    by (simp add: create_longa1_def get_clean_ascii_code_def write_text_eq)
  have "extends load_event w w0"
    by (rule extends_step[OF ec, of _ "[Sleep 1, Write ''longa1.py'' (longa1_code code), Print 87 [], Sleep 1]"])
       (simp_all add: w0 load_event_def)
  moreover have "files w0 = (files_after_cleanup env (files w))
                 (''longa1.py'' := if watcher_deletes env then None else Some (longa1_code code))"
    by (simp add: w0 fc)
  ultimately show ?thesis using S code nw by blast
qed

lemma create_longa1_ok:
  assumes "files w ''longa.py'' = Some S" "\<not> write_fails env ORCHESTRATOR ''longa1.py''"
  shows "\<exists>w0. create_longa1 env w = Inr w0"
proof -
  obtain wc where wc: "clean_previous_run_artifacts env w = Inr wc"
    and fc: "files wc = files_after_cleanup env (files w)"
    using cleanup_eq[of env w] by blast
  show ?thesis using assms wc fc
    by (simp add: create_longa1_def get_clean_ascii_code_def write_text_eq capture_eq)
qed

lemma import_longa1_absent:
  "files w ''longa1.py'' = None \<Longrightarrow> import_longa1 env w = (False, print_line 105 [] w)"
  by (simp add: import_longa1_def os_path_exists_def)

lemma import_longa1_present:
  assumes "files w ''longa1.py'' = Some (longa1_code code)"
  shows "import_longa1 env w =
     (if write_fails env SUCCESSOR ''longa.py'' then (False, print_line 103 [] (emit (Exec ''longa1.py'') w))
      else if remove_fails env SUCCESSOR ''longa1.py''
      then (True, print_line 100 [] (print_line 80 ''longa1.py'' (written ''longa.py'' code (emit (Exec ''longa1.py'') w))))
      else (True, print_line 100 [] (print_line 78 ''longa1.py'' (removed ''longa1.py'' (written ''longa.py'' code (emit (Exec ''longa1.py'') w))))))"
  using assms
  by (simp add: import_longa1_def os_path_exists_def exec_module_def python_exec_def
      recognise_longa1_code run_agent_def longa1_body_def write_text_eq self_delete)

lemma load_phase_Inr:
  assumes "load_phase env w = Inr (b, w1)"
  shows "\<exists>S code. files w ''longa.py'' = Some S \<and> capture S = Inr code
           \<and> \<not> write_fails env ORCHESTRATOR ''longa1.py''
           \<and> b = (\<not> watcher_deletes env \<and> \<not> write_fails env SUCCESSOR ''longa.py'')
           \<and> files w1 =
               (if watcher_deletes env then (files_after_cleanup env (files w))(''longa1.py'' := None)
                else if write_fails env SUCCESSOR ''longa.py''
                then (files_after_cleanup env (files w))(''longa1.py'' \<mapsto> longa1_code code)
                else if remove_fails env SUCCESSOR ''longa1.py''
                then (files_after_cleanup env (files w))(''longa1.py'' \<mapsto> longa1_code code, ''longa.py'' \<mapsto> code)
                else (files_after_cleanup env (files w))(''longa.py'' \<mapsto> code, ''longa1.py'' := None))
           \<and> extends load_event w w1"
proof -
  from assms obtain w0 where w0: "create_longa1 env w = Inr w0" and imp: "import_longa1 env w0 = (b, w1)"
    by (auto simp: load_phase_def split: sum.splits)
  from create_longa1_Inr[OF w0] obtain S code where S: "files w ''longa.py'' = Some S"
    and code: "capture S = Inr code" and nw: "\<not> write_fails env ORCHESTRATOR ''longa1.py''"
    and f0: "files w0 = (files_after_cleanup env (files w))
                 (''longa1.py'' := if watcher_deletes env then None else Some (longa1_code code))"
    and e0: "extends load_event w w0" by blast
  show ?thesis
  proof (cases "watcher_deletes env")
    case True
    with f0 have "files w0 ''longa1.py'' = None" by simp
    from import_longa1_absent[OF this, of env] imp have b: "b = False" and w1: "w1 = print_line 105 [] w0" by auto
    have "extends load_event w w1"
      by (rule extends_step[OF e0, of _ "[Print 105 []]"]) (simp_all add: w1 load_event_def)
    with S code nw True b w1 f0 show ?thesis by auto
  next
    case False
    with f0 have p: "files w0 ''longa1.py'' = Some (longa1_code code)" by simp
    note i = import_longa1_present[OF p, of env]
    consider (wf) "write_fails env SUCCESSOR ''longa.py''"
      | (rf) "\<not> write_fails env SUCCESSOR ''longa.py''" "remove_fails env SUCCESSOR ''longa1.py''"
      | (ok) "\<not> write_fails env SUCCESSOR ''longa.py''" "\<not> remove_fails env SUCCESSOR ''longa1.py''"
      by blast
    then show ?thesis
    proof cases
      case wf
      with i imp have b: "b = False" and w1: "w1 = print_line 103 [] (emit (Exec ''longa1.py'') w0)" by auto
      have "extends load_event w w1"
        by (rule extends_step[OF e0, of _ "[Exec ''longa1.py'', Print 103 []]"]) (simp_all add: w1 load_event_def)
      with S code nw False b w1 f0 wf show ?thesis by auto
    next
      case rf
      with i imp have b: "b = True" and w1: "w1 = print_line 100 [] (print_line 80 ''longa1.py'' (written ''longa.py'' code (emit (Exec ''longa1.py'') w0)))" by auto
      have "extends load_event w w1"
        by (rule extends_step[OF e0, of _ "[Exec ''longa1.py'', Write ''longa.py'' code, Print 80 ''longa1.py'', Print 100 []]"]) (simp_all add: w1 load_event_def)
      with S code nw False b w1 f0 rf show ?thesis by auto
    next
      case ok
      with i imp have b: "b = True" and w1: "w1 = print_line 100 [] (print_line 78 ''longa1.py'' (removed ''longa1.py'' (written ''longa.py'' code (emit (Exec ''longa1.py'') w0))))" by auto
      have "extends load_event w w1"
        by (rule extends_step[OF e0, of _ "[Exec ''longa1.py'', Write ''longa.py'' code, Remove ''longa1.py'', Print 78 ''longa1.py'', Print 100 []]"]) (simp_all add: w1 load_event_def files_to_clean_def)
      with S code nw False b w1 f0 ok show ?thesis by (auto simp: fun_upd_twist)
    qed
  qed
qed

section \<open>The two paths\<close>

lemma success_path_eq:
  "success_path env w =
     (if write_fails env ORCHESTRATOR ''longa2.py'' then Inl (OSError, w)
      else Inr (if files w ''longa.py'' \<noteq> None \<and> \<not> remove_fails env ORCHESTRATOR ''longa.py''
                then print_line 123 ''longa.py'' (removed ''longa.py'' (print_line 115 [] (written ''longa2.py'' longa2_text w)))
                else print_line 126 ''longa.py'' (print_line 125 [] (print_line 115 [] (written ''longa2.py'' longa2_text w)))))"
  by (simp add: success_path_def write_text_eq self_delete Let_def)

lemma recovery_b_failure: "recovery_b_event e \<Longrightarrow> failure_event e"
  by (cases e) (simp_all add: recovery_b_event_def failure_event_def)

lemma loadmax_extends: "extends recovery_b_event w (final_world (loadmax env w))"
proof (cases "select_number (selector_input env)")
  case (Inl e)
  then show ?thesis by (simp add: loadmax_def)
next
  case (Inr n)
  show ?thesis
  proof (cases "write_fails env SELECTOR (''longastop'' @ decimal (nat n) @ ''.py'')")
    case True
    with Inr show ?thesis by (simp add: loadmax_def write_text_eq)
  next
    case False
    have "extends recovery_b_event w (written (''longastop'' @ decimal (nat n) @ ''.py'') (longastop_text n) w)"
      by (rule extendsI[of _ _ "[Write (''longastop'' @ decimal (nat n) @ ''.py'') (longastop_text n)]"])
         (simp_all add: recovery_b_event_def)
    with Inr False show ?thesis by (simp add: loadmax_def write_text_eq)
  qed
qed

lemma subprocess_run_world:
  "final_world (subprocess_run env child w) = (if python_in_path env then final_world (child w) else w)"
  by (auto simp: subprocess_run_def split: sum.splits)

lemma extends_print: "extends P w w1 \<Longrightarrow> P (Print n v) \<Longrightarrow> extends P w (print_line n v w1)"
  by (rule extends_step[of P w w1 _ "[Print n v]"]) simp_all

lemma extends_removed: "extends P w w1 \<Longrightarrow> P (Remove f) \<Longrightarrow> extends P w (removed f w1)"
  by (rule extends_step[of P w w1 _ "[Remove f]"]) simp_all

lemma extends_written: "extends P w w1 \<Longrightarrow> P (Write f t) \<Longrightarrow> extends P w (written f t w1)"
  by (rule extends_step[of P w w1 _ "[Write f t]"]) simp_all

lemma extends_emit: "extends P w w1 \<Longrightarrow> P e \<Longrightarrow> extends P w (emit e w1)"
  by (rule extends_step[of P w w1 _ "[e]"]) simp_all

lemma extends_sleep: "extends P w w1 \<Longrightarrow> P (Sleep n) \<Longrightarrow> extends P w (time_sleep n w1)"
  by (rule extends_step[of P w w1 _ "[Sleep n]"]) simp_all

lemma rb_prints [simp]: "recovery_b_event (Print n v) = (190 < n)"
  "recovery_b_event (Remove f) = (f = ''loadedmax.py'' \<or> f = ''longa.py'')"
  "recovery_b_event (Exec f) = (f = ''loadedmax.py'')"
  "recovery_b_event (Write f t) = (f \<noteq> ''longa.py'' \<and> f \<noteq> ''longa2.py'')"
  by (simp_all add: recovery_b_event_def)

text \<open>Rules that carry \<open>extends\<close> through the control structure of a body.\<close>

lemma ext_Inr: "extends P w w1 \<Longrightarrow> extends P w (final_world (Inr w1))"
  by simp

lemma ext_Inl: "extends P w w1 \<Longrightarrow> extends P w (final_world (Inl (e, w1)))"
  by simp

lemma ext_and_then:
  "extends P w (final_world r) \<Longrightarrow>
   (\<And>w1. extends P w w1 \<Longrightarrow> extends P w (final_world (f w1))) \<Longrightarrow>
   extends P w (final_world (and_then r f))"
  by (cases r) auto

lemma ext_try_except:
  "extends P w (final_world body) \<Longrightarrow>
   (\<And>e w1. extends P w w1 \<Longrightarrow> extends P w (final_world (h e w1))) \<Longrightarrow>
   extends P w (final_world (try_except body c h))"
  by (cases body) auto

lemma ext_os_remove:
  "extends P w w1 \<Longrightarrow> P (Remove f) \<Longrightarrow> extends P w (final_world (os_remove env r f w1))"
  by (simp add: os_remove_def extends_removed)

lemma ext_write_text:
  "extends P w w1 \<Longrightarrow> P (Write f t) \<Longrightarrow> extends P w (final_world (write_text env r f t w1))"
  by (simp add: write_text_eq extends_written)

lemma ext_subprocess_run:
  "extends P w w1 \<Longrightarrow> extends P w (final_world (child w1)) \<Longrightarrow>
   extends P w (final_world (subprocess_run env child w1))"
  by (simp add: subprocess_run_world)

lemma ext_Popen:
  "extends P w w1 \<Longrightarrow> P (Popen args) \<Longrightarrow>
   extends P w (final_world (subprocess_Popen env args w1))"
  by (simp add: subprocess_Popen_def extends_emit)

lemma ext_report:
  "extends P w w1 \<Longrightarrow> P (Print a v) \<Longrightarrow> P (Print b []) \<Longrightarrow> P (Print c []) \<Longrightarrow>
   extends P w (final_world (report_run_error a b c v e w1))"
  by (simp add: report_run_error_def extends_print)

lemma ext_if:
  "(c \<Longrightarrow> extends P w (final_world a)) \<Longrightarrow> (\<not> c \<Longrightarrow> extends P w (final_world b)) \<Longrightarrow>
   extends P w (final_world (if c then a else b))"
  by simp

lemmas ext_rules = ext_and_then ext_try_except ext_if ext_os_remove ext_write_text
  ext_subprocess_run ext_Popen ext_report ext_Inr ext_Inl extends_print extends_sleep
  extends_emit extends_written extends_removed

text \<open>Rules for bodies that cannot raise.\<close>

lemma returns_and_then:
  "\<exists>w1. r = Inr w1 \<Longrightarrow> (\<And>w1. \<exists>w'. f w1 = Inr w') \<Longrightarrow> \<exists>w'. and_then r f = Inr w'"
  by auto

lemma returns_try_all:
  "(\<And>e w1. \<exists>w'. h e w1 = Inr w') \<Longrightarrow> \<exists>w'. try_except body is_Exception h = Inr w'"
  by (cases body) auto

lemma returns_if:
  "(c \<Longrightarrow> \<exists>w'. a = Inr w') \<Longrightarrow> (\<not> c \<Longrightarrow> \<exists>w'. b = Inr w') \<Longrightarrow> \<exists>w'. (if c then a else b) = Inr w'"
  by simp

lemma returns_report: "\<exists>w'. report_run_error a b c v e w = Inr w'"
  by (simp add: report_run_error_def)

lemma loadmax_trans:
  "extends recovery_b_event w w1 \<Longrightarrow> extends recovery_b_event w (final_world (loadmax env w1))"
  using loadmax_extends extends_trans by blast

lemma loadedmax_body_extends:
  "extends recovery_b_event w w0 \<Longrightarrow>
   extends recovery_b_event w (final_world (loadedmax_body env ''loadedmax.py'' w0))"
  unfolding loadedmax_body_def Let_def
  by (intro ext_rules loadmax_trans) simp_all

lemma loadedmax_body_returns: "\<exists>w'. loadedmax_body env file w = Inr w'"
  unfolding loadedmax_body_def Let_def
  by (intro returns_and_then returns_try_all returns_if) (simp_all add: self_delete)

lemma and_then_write:
  "and_then (write_text env r f t w) g = (if write_fails env r f then Inl (OSError, w) else g (written f t w))"
  by (simp add: write_text_eq)

lemma get_clean_ascii_code_eq:
  "get_clean_ascii_code w f =
     (case files w f of None \<Rightarrow> Inl FileNotFoundError | Some raw \<Rightarrow> Inr (concat (map keep_or_ref raw)))"
  by (simp add: get_clean_ascii_code_def capture_eq split: option.splits)

lemma python_exec_loadedmax:
  "files w ''loadedmax.py'' = Some loadedmax_code_content \<Longrightarrow>
   python_exec env ''loadedmax.py'' w = loadedmax_body env ''loadedmax.py'' (emit (Exec ''loadedmax.py'') w)"
  by (simp add: python_exec_def recognise_loadedmax run_agent_def)

lemma python_exec_longamax:
  "files w ''longamax.py'' = Some (longamax_code_content code) \<Longrightarrow>
   python_exec env ''longamax.py'' w = longamax_body env ''longamax.py'' code (emit (Exec ''longamax.py'') w)"
  by (simp add: python_exec_def recognise_longamax_code run_agent_def)

lemma ext_python_loadedmax:
  "extends recovery_b_event w w1 \<Longrightarrow> files w1 ''loadedmax.py'' = Some loadedmax_code_content \<Longrightarrow>
   extends recovery_b_event w (final_world (python_exec env ''loadedmax.py'' w1))"
  by (simp add: python_exec_loadedmax loadedmax_body_extends extends_emit)

lemma run_loadedmax_returns: "\<exists>w'. run_loadedmax env w = Inr w'"
  unfolding run_loadedmax_def Let_def
  by (intro returns_and_then returns_try_all returns_report) simp

lemma run_loadedmax_extends:
  "extends recovery_b_event w w0 \<Longrightarrow> extends recovery_b_event w (final_world (run_loadedmax env w0))"
  unfolding run_loadedmax_def Let_def and_then_write
  by (intro ext_rules ext_python_loadedmax) simp_all

lemma fe_simps [simp]:
  "failure_event (Print n v) = (126 < n)" "failure_event (Sleep k)" "failure_event (Remove f)"
  "failure_event (Popen args)" "failure_event (Write f t) = (f \<noteq> ''longa2.py'')"
  "failure_event (Exec f) = (f = ''longamax.py'' \<or> f = ''loadedmax.py'')"
  by (simp_all add: failure_event_def)

lemma longamax_body_extends:
  "extends failure_event w w0 \<Longrightarrow>
   extends failure_event w (final_world (longamax_body env ''longamax.py'' code w0))"
  unfolding longamax_body_def Let_def and_then_write fold.simps comp_def id_def
  by (intro ext_rules) simp_all

lemma ext_python_longamax:
  "extends failure_event w w1 \<Longrightarrow> files w1 ''longamax.py'' = Some (longamax_code_content code) \<Longrightarrow>
   extends failure_event w (final_world (python_exec env ''longamax.py'' w1))"
  by (simp add: python_exec_longamax longamax_body_extends extends_emit)

lemma run_longamax_extends:
  "extends failure_event w w0 \<Longrightarrow> extends failure_event w (final_world (run_longamax env w0))"
proof (cases "files w0 ''longa.py''")
  case None
  assume "extends failure_event w w0"
  with None show ?thesis
    by (simp add: run_longamax_def Let_def get_clean_ascii_code_eq extends_print)
next
  case (Some S)
  assume e: "extends failure_event w w0"
  have "extends failure_event w
     (final_world
       (if write_fails env ORCHESTRATOR ''longamax.py'' then Inl (OSError, print_line 131 [] w0)
        else try_except
               (and_then
                 (subprocess_run env (python_exec env ''longamax.py'')
                   (print_line 186 [] (print_line 183 []
                     (written ''longamax.py'' (longamax_code_content (concat (map keep_or_ref S)))
                       (print_line 131 [] w0)))))
                 (\<lambda>w. Inr (print_line 191 [] w)))
               is_Exception (report_run_error 193 195 197 [])))"
    using e by (intro ext_rules ext_python_longamax[where code = "concat (map keep_or_ref S)"]) simp_all
  then show ?thesis using Some
    by (simp add: run_longamax_def Let_def get_clean_ascii_code_eq and_then_write)
qed

lemma run_longamax_raises:
  "isl (run_longamax env w) = (files w ''longa.py'' = None \<or> write_fails env ORCHESTRATOR ''longamax.py'')"
proof (cases "files w ''longa.py''")
  case None
  then show ?thesis by (simp add: run_longamax_def Let_def get_clean_ascii_code_eq)
next
  case (Some S)
  have "\<not> isl (try_except
            (and_then (subprocess_run env (python_exec env ''longamax.py'') w0) (\<lambda>w.
               Inr (print_line 191 [] w)))
            is_Exception (report_run_error 193 195 197 []))" for w0
    using returns_try_all[of "report_run_error 193 195 197 []", OF returns_report] by (metis sum.disc(2))
  then show ?thesis using Some
    by (simp add: run_longamax_def Let_def get_clean_ascii_code_eq and_then_write)
qed

section \<open>Capture is total, ASCII and idempotent\<close>

lemma isprintable_hexdigit: "isprintable (hexdigit n)"
proof -
  have "n mod 16 \<in> {..<16}" by simp
  then have "n mod 16 \<in> {0,1,2,3,4,5,6,7,8,9,10,11,12,13,14,15}"
    by (auto simp add: lessThan_nat_numeral lessThan_Suc)
  then show ?thesis by (auto simp: hexdigit_def isprintable_def)
qed

lemma isprintable_letters:
  "isprintable (CHR 0x5C)" "isprintable (CHR 0x27)" "isprintable (CHR 0x22)"
  "isprintable (CHR ''t'')" "isprintable (CHR ''n'')" "isprintable (CHR ''r'')"
  "isprintable (CHR ''x'')"
  by (simp_all add: isprintable_def)

lemma isprintable_repr_char:
  "quote = CHR 0x27 \<or> quote = CHR 0x22 \<Longrightarrow> list_all isprintable (repr_char quote ch)"
  by (auto simp: repr_char_def isprintable_hexdigit isprintable_letters)

lemma isprintable_py_repr: "list_all isprintable (py_repr s)"
proof -
  have q: "repr_quote s = CHR 0x27 \<or> repr_quote s = CHR 0x22" by (rule repr_quote_cases)
  then have "isprintable (repr_quote s)" by (auto simp: isprintable_letters)
  moreover have "list_all isprintable (concat (map (repr_char (repr_quote s)) s))"
    using isprintable_repr_char[OF q] by (auto simp: list_all_iff)
  ultimately show ?thesis by (simp add: py_repr_def Let_def)
qed

lemma is_ascii_hexdigit: "(of_char (hexdigit n) :: nat) < 128"
proof -
  have "n mod 16 \<in> {..<16}" by simp
  then have "n mod 16 \<in> {0,1,2,3,4,5,6,7,8,9,10,11,12,13,14,15}"
    by (auto simp add: lessThan_nat_numeral lessThan_Suc)
  then show ?thesis by (auto simp: hexdigit_def)
qed

lemma is_ascii_repr_char:
  "quote = CHR 0x27 \<or> quote = CHR 0x22 \<Longrightarrow> (of_char ch :: nat) < 128 \<Longrightarrow> is_ascii (repr_char quote ch)"
  by (auto simp: repr_char_def is_ascii_hexdigit)

lemma is_ascii_repr_body:
  "quote = CHR 0x27 \<or> quote = CHR 0x22 \<Longrightarrow> is_ascii s \<Longrightarrow>
   is_ascii (concat (map (repr_char quote) s))"
  by (induction s) (simp_all add: is_ascii_repr_char)

lemma is_ascii_py_repr: "is_ascii s \<Longrightarrow> is_ascii (py_repr s)"
proof -
  assume a: "is_ascii s"
  have q: "repr_quote s = CHR 0x27 \<or> repr_quote s = CHR 0x22" by (rule repr_quote_cases)
  then have "(of_char (repr_quote s) :: nat) < 128" by auto
  with is_ascii_repr_body[OF q a] show ?thesis by (simp add: py_repr_def Let_def)
qed

lemma py_literal_py_repr_whole: "py_literal (py_repr s) = Some (s, [])"
  using py_literal_py_repr[of "[]" s] by simp

text \<open>
  C7. Code capture is total over byte strings: for every input it returns a text, never an
  exception; the text is pure ASCII, and it can be embedded as a quoted string literal: its
  \<^verbatim>\<open>repr\<close> is ASCII, printable on one line, and is read back as the same text.
\<close>

theorem capture_total:
  "\<exists>code. capture raw_bytes = Inr code \<and> is_ascii code \<and> is_ascii (py_repr code) \<and>
          list_all isprintable (py_repr code) \<and> py_literal (py_repr code) = Some (code, [])"
  by (simp add: capture_eq is_ascii_capture is_ascii_py_repr isprintable_py_repr py_literal_py_repr_whole)





section \<open>Cleanup\<close>

text \<open>
  C8. Cleanup never raises. For any name, the loop body logs a missing file as not found
  (line 47), a refused deletion as an error (line 45) and a deletion as done (line 43). The
  whole function goes through exactly the four names \<^verbatim>\<open>longa1.py\<close>, \<^verbatim>\<open>longa2.py\<close>,
  \<^verbatim>\<open>longamax.py\<close>, \<^verbatim>\<open>loadedmax.py\<close>, in this order, between its two banner lines, and
  changes no other entry of the namestore.
\<close>

theorem cleanup_never_fatal:
  "clean_one env f w =
     Inr (if files w f = None then print_line 47 f w
          else if remove_fails env ORCHESTRATOR f then print_line 45 f w
          else print_line 43 f (removed f w)) \<and>
   (\<exists>w'. clean_previous_run_artifacts env w = Inr w' \<and>
      trace w' = trace w @ [Print 38 []] @
        concat (map (\<lambda>f. if files w f = None then [Print 47 f]
                          else if remove_fails env ORCHESTRATOR f then [Print 45 f]
                          else [Remove f, Print 43 f])
                  [''longa1.py'', ''longa2.py'', ''longamax.py'', ''loadedmax.py'']) @
        [Print 48 []] \<and>
      files w' =
        (\<lambda>f. if f \<in> set [''longa1.py'', ''longa2.py'', ''longamax.py'', ''loadedmax.py''] \<and>
                 \<not> remove_fails env ORCHESTRATOR f
              then None else files w f))"
proof -
  have r: "clean_report env w =
     (\<lambda>f. if files w f = None then [Print 47 f]
           else if remove_fails env ORCHESTRATOR f then [Print 45 f]
           else [Remove f, Print 43 f])"
    by (simp add: fun_eq_iff clean_report_def)
  from cleanup_eq[of env w] show ?thesis
    unfolding r files_after_cleanup_def files_to_clean_def by (simp add: clean_one_eq)
qed

section \<open>The failure path as a whole\<close>

lemma decimal_digits: "decimal 3 = ''3''" "decimal 2 = ''2''" "decimal 1 = ''1''" "decimal (Suc 0) = ''1''"
  by code_simp+

lemma run_loadedmax_extends_f:
  assumes "extends failure_event w w0"
  shows "extends failure_event w (final_world (run_loadedmax env w0))"
proof -
  have "extends recovery_b_event w0 (final_world (run_loadedmax env w0))"
    by (rule run_loadedmax_extends) simp
  then have "extends failure_event w0 (final_world (run_loadedmax env w0))"
    by (rule extends_mono) (rule recovery_b_failure)
  with assms show ?thesis by (rule extends_trans)
qed

lemma failure_path_extends:
  "extends failure_event w w0 \<Longrightarrow> extends failure_event w (final_world (failure_path env w0))"
  unfolding failure_path_def
  by (intro ext_rules run_longamax_extends run_loadedmax_extends_f) simp_all

lemma failure_path_raises:
  "isl (failure_path env w) = (files w ''longa.py'' = None \<or> write_fails env ORCHESTRATOR ''longamax.py'')"
proof (cases "run_longamax env w")
  case (Inl x)
  with run_longamax_raises[of env w] show ?thesis by (simp add: failure_path_def)
next
  case (Inr wa)
  obtain wb where wb: "run_loadedmax env wa = Inr wb" using run_loadedmax_returns by blast
  from Inr run_longamax_raises[of env w] have "\<not> (files w ''longa.py'' = None \<or> write_fails env ORCHESTRATOR ''longamax.py'')"
    by simp
  with Inr wb show ?thesis by (simp add: failure_path_def self_delete)
qed

lemma failure_path_completes:
  assumes "failure_path env w = Inr w'"
  shows "failure_path_completed (trace w')"
proof -
  from assms obtain wa where wa: "run_longamax env w = Inr wa"
    by (cases "run_longamax env w") (simp_all add: failure_path_def)
  obtain wb where wb: "run_loadedmax env wa = Inr wb" using run_loadedmax_returns by blast
  from assms wa wb show ?thesis
    by (auto simp: failure_path_def self_delete failure_path_completed_def split: if_splits)
qed

lemma load_event_prints [simp]: "load_event (Print n v) = (n < 110)" "\<not> load_event (Popen args)"
  "load_event (Exec f) = (f = ''longa1.py'')" "load_event (Write f t) = (f = ''longa1.py'' \<or> f = ''longa.py'')"
  "load_event (Sleep k)"
  by (simp_all add: load_event_def)

lemma from_empty: "extends P w w' \<Longrightarrow> trace w = [] \<Longrightarrow> e \<in> set (trace w') \<Longrightarrow> P e"
  using extends_mem by fastforce

lemma load_phase_longa_exists:
  assumes "load_phase env w = Inr (b, w1)"
  shows "files w1 ''longa.py'' \<noteq> None"
  using load_phase_Inr[OF assms] by (auto split: if_splits)








section \<open>Runs on concrete inputs\<close>

lemmas run_eval =
  main_def load_phase_def create_longa1_def clean_previous_run_artifacts_def files_to_clean_def
  clean_one_eq get_clean_ascii_code_eq and_then_write import_longa1_def os_path_exists_def
  exec_module_def python_exec_def recognise_longa1_code recognise_longamax_code
  recognise_loadedmax run_agent_def longa1_body_def longamax_body_def loadedmax_body_def
  self_delete success_path_eq failure_path_def run_longamax_def run_loadedmax_def
  subprocess_run_def subprocess_Popen_def report_run_error_def loadmax_def keep_or_ref_def
  Let_def decimal_digits

lemmas inputs =
  quiet_env_def fresh_world_def locked_marker_env_def locked_marker_world_def watched_env_def
  no_python_env_def stale_env_def stale_world_def

lemma quiet_run:
  "\<not> isl (main quiet_env fresh_world) \<and>
   trace (final_world (main quiet_env fresh_world)) =
     [Print 38 [], Print 47 ''longa1.py'', Print 47 ''longa2.py'', Print 47 ''longamax.py'',
      Print 47 ''loadedmax.py'', Print 48 [], Sleep 1,
      Write ''longa1.py'' (longa1_code ''print(1)''), Print 87 [], Sleep 1,
      Exec ''longa1.py'', Write ''longa.py'' ''print(1)'', Remove ''longa1.py'',
      Print 78 ''longa1.py'', Print 100 [], Sleep 1,
      Write ''longa2.py'' longa2_text, Print 115 [], Remove ''longa.py'', Print 123 ''longa.py'']"
  by (simp add: run_eval inputs)

lemma quiet_load: "\<exists>w1. load_phase quiet_env fresh_world = Inr (True, w1)"
  by (simp add: run_eval inputs)

lemma fresh_trace: "trace fresh_world = []"
  by (simp add: fresh_world_def)



text \<open>Every text the orchestrator writes is ASCII when the captured code is.\<close>

lemma is_ascii_unlines: "list_all is_ascii ls \<Longrightarrow> is_ascii (unlines ls)"
  by (induction ls) (simp_all add: unlines_def)

lemma is_ascii_generated:
  "is_ascii code \<Longrightarrow> is_ascii (longa1_code code)"
  "is_ascii code \<Longrightarrow> is_ascii (longamax_code_content code)"
  "is_ascii loadedmax_code_content"
  "is_ascii longa2_text"
  by (simp_all add: longa1_code_def longa1_head_def longa1_tail_def longamax_code_content_def
      longamax_head_def longamax_tail_def loadedmax_code_content_def longa2_text_def
      is_ascii_unlines is_ascii_py_repr)

section \<open>The branch decision\<close>



text \<open>
  C1, as stated, fails: with a leftover \<^verbatim>\<open>longa2.py\<close> that can neither be deleted nor
  overwritten, the load succeeds (line 100), the unguarded \<^verbatim>\<open>open\<close> of line 112 raises, and
  the run ends with neither path completed.
\<close>

theorem branch_exclusive_counterexample:
  "isl (main locked_marker_env locked_marker_world) \<and>
   trace (final_world (main locked_marker_env locked_marker_world)) =
     [Print 38 [], Print 47 ''longa1.py'', Print 45 ''longa2.py'', Print 47 ''longamax.py'',
      Print 47 ''loadedmax.py'', Print 48 [], Sleep 1,
      Write ''longa1.py'' (longa1_code ''print(1)''), Print 87 [], Sleep 1,
      Exec ''longa1.py'', Write ''longa.py'' ''print(1)'', Remove ''longa1.py'',
      Print 78 ''longa1.py'', Print 100 [], Sleep 1] \<and>
   \<not> success_path_completed (trace (final_world (main locked_marker_env locked_marker_world))) \<and>
   \<not> failure_path_completed (trace (final_world (main locked_marker_env locked_marker_world)))"
  by (simp add: run_eval inputs success_path_completed_def failure_path_completed_def)

text \<open>
  C1, amended. In a run that starts with an empty trace and reaches the branch decision, the
  two paths never both execute to completion; the success path completes exactly when the
  load succeeded and \<^verbatim>\<open>longa2.py\<close> could be written, the failure path exactly when the load
  failed and \<^verbatim>\<open>longamax.py\<close> could be written; in the two remaining cases the run ends on
  the uncaught exception of that write, with neither path completed.
\<close>

theorem branch_exclusive:
  assumes "load_phase env w = Inr (b, w1)" and "trace w = []"
  shows "\<not> (success_path_completed (trace (final_world (main env w))) \<and>
            failure_path_completed (trace (final_world (main env w)))) \<and>
         success_path_completed (trace (final_world (main env w))) =
           (b \<and> \<not> write_fails env ORCHESTRATOR ''longa2.py'') \<and>
         failure_path_completed (trace (final_world (main env w))) =
           (\<not> b \<and> \<not> write_fails env ORCHESTRATOR ''longamax.py'') \<and>
         isl (main env w) =
           (if b then write_fails env ORCHESTRATOR ''longa2.py''
            else write_fails env ORCHESTRATOR ''longamax.py'')"
proof -
  from load_phase_Inr[OF assms(1)] have e1: "extends load_event w w1" by blast
  have ex: "files w1 ''longa.py'' \<noteq> None" using assms(1) by (rule load_phase_longa_exists)
  have l: "e \<in> set (trace w1) \<Longrightarrow> load_event e" for e using e1 assms(2) by (rule from_empty)
  have n1: "Print 123 ''longa.py'' \<notin> set (trace w1)" "Print 126 ''longa.py'' \<notin> set (trace w1)"
    "Print 258 ''longa.py'' \<notin> set (trace w1)" "Print 261 ''longa.py'' \<notin> set (trace w1)"
    using l by force+
  show ?thesis
  proof (cases b)
    case True
    have m: "main env w = success_path env (time_sleep 1 w1)"
      using assms(1) True by (simp add: main_def)
    show ?thesis using True n1 ex
      by (simp add: m success_path_eq success_path_completed_def failure_path_completed_def)
  next
    case False
    let ?w2 = "time_sleep 1 w1"
    have m: "main env w = failure_path env ?w2"
      using assms(1) False by (simp add: main_def)
    have r: "isl (failure_path env ?w2) = write_fails env ORCHESTRATOR ''longamax.py''"
      using ex by (auto simp: failure_path_raises)
    have "extends failure_event ?w2 (final_world (failure_path env ?w2))"
      by (rule failure_path_extends) simp
    then have f: "e \<in> set (trace (final_world (failure_path env ?w2))) \<Longrightarrow> e \<in> set (trace ?w2) \<or> failure_event e" for e
      by (rule extends_mem)
    have ns: "\<not> success_path_completed (trace (final_world (failure_path env ?w2)))"
      using f[of "Print 123 ''longa.py''"] f[of "Print 126 ''longa.py''"] n1
      by (auto simp: success_path_completed_def)
    have fc: "failure_path_completed (trace (final_world (failure_path env ?w2))) =
              (\<not> write_fails env ORCHESTRATOR ''longamax.py'')"
    proof (cases "failure_path env ?w2")
      case (Inr w')
      with failure_path_completes[OF Inr] r show ?thesis by simp
    next
      case (Inl x)
      obtain e w' where x: "x = (e, w')" by (cases x)
      from Inl r have wf: "write_fails env ORCHESTRATOR ''longamax.py''" by simp
      have w': "w' = print_line 131 [] ?w2"
        using Inl x ex wf
        by (cases "files w1 ''longa.py''")
           (simp_all add: failure_path_def run_longamax_def Let_def get_clean_ascii_code_eq and_then_write)
      show ?thesis using wf Inl x w' n1 by (simp add: failure_path_completed_def)
    qed
    show ?thesis using False ns fc r by (simp add: m)
  qed
qed

theorem branch_exclusive_witness:
  "\<exists>w1. load_phase quiet_env fresh_world = Inr (True, w1) \<and> trace fresh_world = [] \<and>
     \<not> (success_path_completed (trace (final_world (main quiet_env fresh_world))) \<and>
        failure_path_completed (trace (final_world (main quiet_env fresh_world)))) \<and>
     success_path_completed (trace (final_world (main quiet_env fresh_world))) \<and>
     \<not> failure_path_completed (trace (final_world (main quiet_env fresh_world))) \<and>
     \<not> isl (main quiet_env fresh_world)"
proof -
  from quiet_load obtain w1 where w1: "load_phase quiet_env fresh_world = Inr (True, w1)" by blast
  from branch_exclusive[OF w1 fresh_trace] w1 fresh_trace show ?thesis
    by (simp add: quiet_env_def)
qed

section \<open>The success path\<close>

text \<open>
  C4, as stated, fails: in the run where nothing is refused the load succeeds, and at the end
  of the run \<^verbatim>\<open>longa.py\<close> does not hold the captured source: the orchestrator has deleted it
  (line 122).
\<close>

theorem success_effect_counterexample:
  "\<not> isl (main quiet_env fresh_world) \<and>
   Print 100 [] \<in> set (trace (final_world (main quiet_env fresh_world))) \<and>
   files fresh_world ''longa.py'' = Some ''print(1)'' \<and>
   capture ''print(1)'' = Inr ''print(1)'' \<and>
   files (final_world (main quiet_env fresh_world)) ''longa.py'' = None"
  by (simp add: run_eval inputs capture_eq)

text \<open>
  C4, amended. If the load succeeds, then right after it \<^verbatim>\<open>longa.py\<close> holds the source
  captured before the successor was written, and \<^verbatim>\<open>longa1.py\<close> is gone unless its
  self-deletion was refused; at the end of the run \<^verbatim>\<open>longa.py\<close> has been deleted by the
  orchestrator, and still holds the captured source only where that deletion was refused or
  was not reached because the write of \<^verbatim>\<open>longa2.py\<close> raised; \<^verbatim>\<open>longa1.py\<close> is as the load
  left it.
\<close>

theorem success_effect:
  assumes "load_phase env w = Inr (True, w1)"
  shows "\<exists>S code. files w ''longa.py'' = Some S \<and> capture S = Inr code \<and>
           files w1 ''longa.py'' = Some code \<and>
           files w1 ''longa1.py'' =
             (if remove_fails env SUCCESSOR ''longa1.py'' then Some (longa1_code code) else None) \<and>
           files (final_world (main env w)) ''longa.py'' =
             (if write_fails env ORCHESTRATOR ''longa2.py'' \<or> remove_fails env ORCHESTRATOR ''longa.py''
              then Some code else None) \<and>
           files (final_world (main env w)) ''longa1.py'' = files w1 ''longa1.py''"
proof -
  from load_phase_Inr[OF assms] obtain S code where S: "files w ''longa.py'' = Some S"
    and code: "capture S = Inr code"
    and b: "\<not> watcher_deletes env \<and> \<not> write_fails env SUCCESSOR ''longa.py''"
    and f1: "files w1 =
               (if watcher_deletes env then (files_after_cleanup env (files w))(''longa1.py'' := None)
                else if write_fails env SUCCESSOR ''longa.py''
                then (files_after_cleanup env (files w))(''longa1.py'' \<mapsto> longa1_code code)
                else if remove_fails env SUCCESSOR ''longa1.py''
                then (files_after_cleanup env (files w))(''longa1.py'' \<mapsto> longa1_code code, ''longa.py'' \<mapsto> code)
                else (files_after_cleanup env (files w))(''longa.py'' \<mapsto> code, ''longa1.py'' := None))"
    by auto
  have a: "files w1 ''longa.py'' = Some code" using b f1 by simp
  have c: "files w1 ''longa1.py'' =
             (if remove_fails env SUCCESSOR ''longa1.py'' then Some (longa1_code code) else None)"
    using b f1 by simp
  have m: "main env w = success_path env (time_sleep 1 w1)"
    using assms by (simp add: main_def)
  have "files (final_world (main env w)) ''longa.py'' =
             (if write_fails env ORCHESTRATOR ''longa2.py'' \<or> remove_fails env ORCHESTRATOR ''longa.py''
              then Some code else None)"
    using a by (simp add: m success_path_eq)
  moreover have "files (final_world (main env w)) ''longa1.py'' = files w1 ''longa1.py''"
    by (simp add: m success_path_eq)
  ultimately show ?thesis using S code a c by blast
qed

theorem success_effect_witness:
  "\<exists>w1. load_phase quiet_env fresh_world = Inr (True, w1) \<and>
     files fresh_world ''longa.py'' = Some ''print(1)'' \<and> capture ''print(1)'' = Inr ''print(1)'' \<and>
     files w1 ''longa.py'' = Some ''print(1)'' \<and> files w1 ''longa1.py'' = None \<and>
     files (final_world (main quiet_env fresh_world)) ''longa.py'' = None \<and>
     files (final_world (main quiet_env fresh_world)) ''longa1.py'' = None"
proof -
  from quiet_load obtain w1 where w1: "load_phase quiet_env fresh_world = Inr (True, w1)" by blast
  have f: "files fresh_world ''longa.py'' = Some ''print(1)''" by (simp add: fresh_world_def)
  have c: "capture ''print(1)'' = Inr ''print(1)''" by (simp add: capture_eq keep_or_ref_def)
  from success_effect[OF w1] w1 f c show ?thesis
    by (auto simp: quiet_env_def)
qed

text \<open>
  C6, as stated, fails: in the run where nothing is refused, \<^verbatim>\<open>longa2.py\<close> is written and
  never executed, so the \<^verbatim>\<open>print\<close> it contains is never produced; the message of line 115
  is the orchestrator's own.
\<close>

theorem success_marker_counterexample:
  "trace (final_world (main quiet_env fresh_world)) =
     [Print 38 [], Print 47 ''longa1.py'', Print 47 ''longa2.py'', Print 47 ''longamax.py'',
      Print 47 ''loadedmax.py'', Print 48 [], Sleep 1,
      Write ''longa1.py'' (longa1_code ''print(1)''), Print 87 [], Sleep 1,
      Exec ''longa1.py'', Write ''longa.py'' ''print(1)'', Remove ''longa1.py'',
      Print 78 ''longa1.py'', Print 100 [], Sleep 1,
      Write ''longa2.py'' longa2_text, Print 115 [], Remove ''longa.py'', Print 123 ''longa.py''] \<and>
   Exec ''longa2.py'' \<notin> set (trace (final_world (main quiet_env fresh_world)))"
  by (simp add: quiet_run)

text \<open>
  C6, amended. On the success path the orchestrator writes \<^verbatim>\<open>longa2.py\<close> and logs that
  itself, never executes it, then attempts once to delete \<^verbatim>\<open>longa.py\<close>, logging the deletion
  or its refusal, and terminates; where the write of \<^verbatim>\<open>longa2.py\<close> raises, the run ends
  there.
\<close>

theorem success_marker:
  assumes "load_phase env w = Inr (True, w1)" and "Exec ''longa2.py'' \<notin> set (trace w)"
  shows "trace (final_world (main env w)) =
           trace w1 @ Sleep 1 #
             (if write_fails env ORCHESTRATOR ''longa2.py'' then []
              else [Write ''longa2.py'' longa2_text, Print 115 []] @
                   (if remove_fails env ORCHESTRATOR ''longa.py''
                    then [Print 125 [], Print 126 ''longa.py'']
                    else [Remove ''longa.py'', Print 123 ''longa.py''])) \<and>
         Exec ''longa2.py'' \<notin> set (trace (final_world (main env w))) \<and>
         isl (main env w) = write_fails env ORCHESTRATOR ''longa2.py'' \<and>
         files (final_world (main env w)) ''longa2.py'' =
           (if write_fails env ORCHESTRATOR ''longa2.py'' then files w1 ''longa2.py''
            else Some longa2_text)"
proof -
  from load_phase_Inr[OF assms(1)] have e1: "extends load_event w w1" by blast
  have ex: "files w1 ''longa.py'' \<noteq> None" using assms(1) by (rule load_phase_longa_exists)
  have n: "Exec ''longa2.py'' \<notin> set (trace w1)"
    using extends_mem[OF e1, of "Exec ''longa2.py''"] assms(2) by auto
  have m: "main env w = success_path env (time_sleep 1 w1)"
    using assms(1) by (simp add: main_def)
  show ?thesis using n ex by (simp add: m success_path_eq)
qed

theorem success_marker_witness:
  "\<exists>w1. load_phase quiet_env fresh_world = Inr (True, w1) \<and>
     Exec ''longa2.py'' \<notin> set (trace fresh_world) \<and>
     trace (final_world (main quiet_env fresh_world)) =
       trace w1 @ [Sleep 1, Write ''longa2.py'' longa2_text, Print 115 [], Remove ''longa.py'',
                   Print 123 ''longa.py''] \<and>
     Exec ''longa2.py'' \<notin> set (trace (final_world (main quiet_env fresh_world))) \<and>
     \<not> isl (main quiet_env fresh_world) \<and>
     files (final_world (main quiet_env fresh_world)) ''longa2.py'' = Some longa2_text"
proof -
  from quiet_load obtain w1 where w1: "load_phase quiet_env fresh_world = Inr (True, w1)" by blast
  have n: "Exec ''longa2.py'' \<notin> set (trace fresh_world)" by (simp add: fresh_world_def)
  from success_marker[OF w1 n] w1 n show ?thesis
    by (auto simp: quiet_env_def)
qed

text \<open>
  C10, as stated, fails: a leftover \<^verbatim>\<open>longamax.py\<close> whose deletion cleanup is refused is still
  there when a run with a successful load has completed the success path.
\<close>

theorem success_no_recovery_artifacts_counterexample:
  "\<not> isl (main stale_env stale_world) \<and>
   trace (final_world (main stale_env stale_world)) =
     [Print 38 [], Print 47 ''longa1.py'', Print 47 ''longa2.py'', Print 45 ''longamax.py'',
      Print 47 ''loadedmax.py'', Print 48 [], Sleep 1,
      Write ''longa1.py'' (longa1_code ''print(1)''), Print 87 [], Sleep 1,
      Exec ''longa1.py'', Write ''longa.py'' ''print(1)'', Remove ''longa1.py'',
      Print 78 ''longa1.py'', Print 100 [], Sleep 1,
      Write ''longa2.py'' longa2_text, Print 115 [], Remove ''longa.py'', Print 123 ''longa.py''] \<and>
   files (final_world (main stale_env stale_world)) ''longamax.py'' = Some ''old''"
  by (simp add: run_eval inputs)

text \<open>
  C10, amended. In a run that starts with an empty trace and whose load succeeds, neither
  \<^verbatim>\<open>longamax.py\<close> nor \<^verbatim>\<open>loadedmax.py\<close> is ever written, and at the end each of them is
  absent, except that a file which was there at entry and whose deletion cleanup was refused
  is left as it was.
\<close>

theorem success_no_recovery_artifacts:
  assumes "load_phase env w = Inr (True, w1)" and "trace w = []"
  shows "filter writes_recovery_artifact (trace (final_world (main env w))) = [] \<and>
         files (final_world (main env w)) ''longamax.py'' =
           (if remove_fails env ORCHESTRATOR ''longamax.py'' then files w ''longamax.py'' else None) \<and>
         files (final_world (main env w)) ''loadedmax.py'' =
           (if remove_fails env ORCHESTRATOR ''loadedmax.py'' then files w ''loadedmax.py'' else None)"
proof -
  from load_phase_Inr[OF assms(1)] obtain code where
    b: "\<not> watcher_deletes env \<and> \<not> write_fails env SUCCESSOR ''longa.py''"
    and f1: "files w1 =
               (if watcher_deletes env then (files_after_cleanup env (files w))(''longa1.py'' := None)
                else if write_fails env SUCCESSOR ''longa.py''
                then (files_after_cleanup env (files w))(''longa1.py'' \<mapsto> longa1_code code)
                else if remove_fails env SUCCESSOR ''longa1.py''
                then (files_after_cleanup env (files w))(''longa1.py'' \<mapsto> longa1_code code, ''longa.py'' \<mapsto> code)
                else (files_after_cleanup env (files w))(''longa.py'' \<mapsto> code, ''longa1.py'' := None))"
    and e1: "extends load_event w w1"
    by auto
  have "filter writes_recovery_artifact (trace w1) = filter writes_recovery_artifact (trace w)"
    using e1 by (rule extends_filter) (auto simp: load_event_def writes_recovery_artifact_def split: event.splits)
  then have t: "filter writes_recovery_artifact (trace w1) = []" using assms(2) by simp
  have m: "main env w = success_path env (time_sleep 1 w1)"
    using assms(1) by (simp add: main_def)
  have fa: "files w1 ''longamax.py'' = (if remove_fails env ORCHESTRATOR ''longamax.py'' then files w ''longamax.py'' else None)"
    "files w1 ''loadedmax.py'' = (if remove_fails env ORCHESTRATOR ''loadedmax.py'' then files w ''loadedmax.py'' else None)"
    using b f1 by (simp_all add: files_after_cleanup_def files_to_clean_def)
  show ?thesis using t fa
    by (simp add: m success_path_eq writes_recovery_artifact_def)
qed

theorem success_no_recovery_artifacts_witness:
  "\<exists>w1. load_phase quiet_env fresh_world = Inr (True, w1) \<and> trace fresh_world = [] \<and>
     filter writes_recovery_artifact (trace (final_world (main quiet_env fresh_world))) = [] \<and>
     files (final_world (main quiet_env fresh_world)) ''longamax.py'' = None \<and>
     files (final_world (main quiet_env fresh_world)) ''loadedmax.py'' = None"
proof -
  from quiet_load obtain w1 where w1: "load_phase quiet_env fresh_world = Inr (True, w1)" by blast
  from success_no_recovery_artifacts[OF w1 fresh_trace] w1 fresh_trace show ?thesis
    by (auto simp: quiet_env_def)
qed

section \<open>The failure path\<close>




end
